theory Spec2Isabelle
  imports Main "HOL-Library.AList"
begin

section \<open>The proxy sandbox of \<^verbatim>\<open>src/sandbox/proxySandbox.ts\<close>\<close>

text \<open>
  The file builds, for every \<^verbatim>\<open>ProxySandbox\<close>, a private object \<^verbatim>\<open>fakeWindow\<close>
  (the overlay) that is layered over the real \<^verbatim>\<open>window\<close>, and hands out two ES
  \<^verbatim>\<open>Proxy\<close> objects whose traps route every property access. The embedding below
  follows the file trap by trap. What JavaScript does implicitly is written out:

  \<^item> a property is a descriptor (data or accessor, with its attribute flags);
  \<^item> an object is the ordered list of its own properties, looked up together with the
    properties it inherits through its prototype chain;
  \<^item> the file is an ES module, hence strict code: an assignment to a read-only
    property and a \<^verbatim>\<open>delete\<close> of a non-configurable property raise \<^verbatim>\<open>TypeError\<close>;
  \<^item> mutation is explicit: every operation takes the world and returns the new one,
    together with the value it returns or the exception it raises.

  \<^item> hosted code holds the \<^verbatim>\<open>Proxy\<close>, not the traps: an operation through the handle
    is the trap followed by the check the engine makes of the trap's answer against
    the target, which raises \<^verbatim>\<open>TypeError\<close> when an invariant of \<^verbatim>\<open>Proxy\<close> is broken.

  The model stops at these borders: the objects are extensible; \<^verbatim>\<open>Object.prototype\<close>
  holds writable data properties and the accessor \<^verbatim>\<open>__proto__\<close>, whose setter stores
  nothing in the receiver; when that setter is given an object or \<^verbatim>\<open>null\<close> it replaces
  the receiver's prototype, and what is then inherited through the new prototype is not
  followed. The console output is not recorded; the traps
  \<^verbatim>\<open>getOwnPropertyDescriptor\<close>, \<^verbatim>\<open>ownKeys\<close> and \<^verbatim>\<open>defineProperty\<close> are not part of the
  development.
\<close>

subsection \<open>Keys, values and descriptors\<close>

text \<open>A \<^verbatim>\<open>PropertyKey\<close> that reaches a trap is a string or a symbol.\<close>

datatype key = Str string | SymbolUnscopables | Symbol string

text \<open>
  Values. Objects and functions are known by their identity only: \<open>Obj n\<close> and \<open>Fn n\<close>
  are host objects and host functions, \<open>Bound f r\<close> is the function \<open>f\<close> bound to the
  receiver \<open>r\<close>, \<open>CreateElementOf o\<close> is the element-creation function the
  dynamic-append collaborator hands out for the owner \<open>o\<close>. The objects the file itself
  creates have constructors of their own. For the instance with identity \<open>i\<close>:
  \<open>WindowProxy i\<close> is its \<^verbatim>\<open>proxy\<close> (line 207, kept in \<^verbatim>\<open>this.proxy\<close>), the handle
  given to hosted code; \<open>DocumentProxy i\<close> is its \<^verbatim>\<open>documentProxy\<close> (line 150);
  \<open>HasOwnPropertyFn i\<close> and \<open>DocHasOwnPropertyFn i\<close> are its closures
  \<^verbatim>\<open>hasOwnProperty\<close> and \<^verbatim>\<open>docHasOwnProperty\<close> (lines 146 and 148). \<open>Unscopables\<close> is
  the module-level table of line 17; \<open>RawWindow\<close> and \<open>RawDocument\<close> are the real
  \<^verbatim>\<open>window\<close> and \<^verbatim>\<open>document\<close>; \<open>ObjectPrototype\<close> is \<^verbatim>\<open>Object.prototype\<close> and
  \<open>ObjectHasOwnProperty\<close> its built-in method \<^verbatim>\<open>hasOwnProperty\<close>. JavaScript numbers are doubles; the integers and
  \<^verbatim>\<open>NaN\<close> are all the development needs.
\<close>

datatype val =
    Undefined
  | Null
  | Bool bool
  | Num int
  | NaN
  | Text string
  | Obj nat
  | Fn nat
  | Bound val val
  | CreateElementOf val
  | RawWindow
  | RawDocument
  | Unscopables
  | WindowProxy nat
  | DocumentProxy nat
  | HasOwnPropertyFn nat
  | DocHasOwnPropertyFn nat
  | ObjectPrototype
  | ObjectHasOwnProperty

text \<open>
  A property descriptor: \<open>Data value writable enumerable configurable\<close>, or
  \<open>Accessor get set enumerable configurable\<close>, where \<open>get\<close> and \<open>set\<close> are the
  identities of host functions (\<open>None\<close> for \<^verbatim>\<open>undefined\<close>).
\<close>

datatype descriptor =
    Data val bool bool bool
  | Accessor "nat option" "nat option" bool bool

type_synonym jsobj = "(key \<times> descriptor) list"

datatype exn = TypeError | HostError

fun configurable :: "descriptor \<Rightarrow> bool" where
  "configurable (Data v w e c) = c"
| "configurable (Accessor g s e c) = c"

text \<open>\<^verbatim>\<open>Object.prototype.hasOwnProperty.call(descriptor, 'get')\<close>: true of every accessor
  descriptor, also of one whose \<^verbatim>\<open>get\<close> is \<^verbatim>\<open>undefined\<close>.\<close>

fun hasGetter :: "descriptor \<Rightarrow> bool" where
  "hasGetter (Data v w e c) = False"
| "hasGetter (Accessor g s e c) = True"

fun isString :: "key \<Rightarrow> bool" where
  "isString (Str s) = True"
| "isString SymbolUnscopables = False"
| "isString (Symbol s) = False"

text \<open>JavaScript's truthiness, as \<^verbatim>\<open>||\<close> tests it.\<close>

fun truthy :: "val \<Rightarrow> bool" where
  "truthy Undefined = False"
| "truthy Null = False"
| "truthy (Bool b) = b"
| "truthy (Num n) = (n \<noteq> 0)"
| "truthy NaN = False"
| "truthy (Text s) = (s \<noteq> [])"
| "truthy v = True"

fun isCallable :: "val \<Rightarrow> bool" where
  "isCallable (Fn f) = True"
| "isCallable (Bound f r) = True"
| "isCallable (CreateElementOf v) = True"
| "isCallable (HasOwnPropertyFn i) = True"
| "isCallable (DocHasOwnPropertyFn i) = True"
| "isCallable ObjectHasOwnProperty = True"
| "isCallable v = False"

text \<open>\<^verbatim>\<open>a === b\<close>: identity, except that \<^verbatim>\<open>NaN\<close> differs from itself.\<close>

definition strictEq :: "val \<Rightarrow> val \<Rightarrow> bool" where
  "strictEq a b = (a = b \<and> a \<noteq> NaN)"

subsection \<open>Objects in strict code\<close>

definition owns :: "jsobj \<Rightarrow> key \<Rightarrow> bool" where
  "owns obj p = (p \<in> set (map fst obj))"

text \<open>\<^verbatim>\<open>p in obj\<close>: an own property, or one inherited through \<open>proto\<close>.\<close>

definition js_in :: "(key \<times> val) list \<Rightarrow> jsobj \<Rightarrow> key \<Rightarrow> bool" where
  "js_in proto obj p = (owns obj p \<or> p \<in> set (map fst proto))"

text \<open>\<^verbatim>\<open>obj[p]\<close>: \<open>run f\<close> is what the host getter \<open>f\<close> returns now.\<close>

definition js_get :: "(nat \<Rightarrow> val) \<Rightarrow> (key \<times> val) list \<Rightarrow> jsobj \<Rightarrow> key \<Rightarrow> val" where
  "js_get run proto obj p =
     (case map_of obj p of
        Some (Data v w e c) \<Rightarrow> v
      | Some (Accessor g s e c) \<Rightarrow> (case g of Some f \<Rightarrow> run f | None \<Rightarrow> Undefined)
      | None \<Rightarrow> (case map_of proto p of Some v \<Rightarrow> v | None \<Rightarrow> Undefined))"

text \<open>
  \<^verbatim>\<open>obj[p] = v\<close> with \<open>obj\<close> as receiver, where \<open>obj\<close> inherits \<open>proto\<close>. A writable
  own data property takes the value; an own accessor hands the value to its setter; a
  read-only own property refuses. When \<open>obj\<close> does not own the key, the inherited
  property decides: \<^verbatim>\<open>__proto__\<close>, when inherited, is an accessor, and the value goes to
  its setter, which stores nothing in \<open>obj\<close>; every other inherited property is a
  writable data property, so the key is created in \<open>obj\<close> (writable, enumerable,
  configurable), as it is when nothing is inherited.
\<close>

datatype assignment = Stored jsobj | ViaSetter nat | ViaProtoSetter | ReadOnly

definition js_assign :: "(key \<times> val) list \<Rightarrow> jsobj \<Rightarrow> key \<Rightarrow> val \<Rightarrow> assignment" where
  "js_assign proto obj p v =
     (case map_of obj p of
        Some (Data old w e c) \<Rightarrow>
          if w then Stored (AList.update p (Data v w e c) obj) else ReadOnly
      | Some (Accessor g s e c) \<Rightarrow> (case s of Some f \<Rightarrow> ViaSetter f | None \<Rightarrow> ReadOnly)
      | None \<Rightarrow>
          if p = Str ''__proto__'' \<and> p \<in> set (map fst proto) then ViaProtoSetter
          else Stored (obj @ [(p, Data v True True True)]))"

text \<open>\<^verbatim>\<open>delete obj[p]\<close>: \<open>None\<close> when the property is non-configurable.\<close>

definition js_delete :: "jsobj \<Rightarrow> key \<Rightarrow> jsobj option" where
  "js_delete obj p =
     (case map_of obj p of
        None \<Rightarrow> Some obj
      | Some d \<Rightarrow> if configurable d then Some (AList.delete p obj) else None)"

subsection \<open>The world\<close>

text \<open>
  The host: the real \<^verbatim>\<open>window\<close> and \<^verbatim>\<open>document\<close> (own properties, and what each
  inherits before \<^verbatim>\<open>Object.prototype\<close>), \<^verbatim>\<open>Object.prototype\<close> itself, and what each
  host getter currently returns. An inherited property is listed with the value a read
  of it gives; for \<^verbatim>\<open>__proto__\<close> that is the prototype its getter returns.
\<close>

record host =
  rawWindow :: jsobj
  rawWindowProto :: "(key \<times> val) list"
  rawDocument :: jsobj
  rawDocumentProto :: "(key \<times> val) list"
  objectPrototype :: "(key \<times> val) list"
  getterResult :: "nat \<Rightarrow> val"

text \<open>The closure state of one \<^verbatim>\<open>ProxySandbox\<close> instance.\<close>

record sandbox =
  name :: string
  sandboxRunning :: bool
  updatedValueSet :: "key set"
  fakeWindow :: jsobj
  propertiesWithGetter :: "key set"
  fakeDocument :: jsobj

text \<open>
  Modelled from the spec: the noise-suppression collaborator
  (\<^verbatim>\<open>./noise/systemjs\<close>, not among the sources) is an opaque pair of hooks,
  \<^verbatim>\<open>onWrite(key, value)\<close> and \<^verbatim>\<open>teardown(globalHandle, isLastActive)\<close>. The world
  records every call with its arguments, in order.
\<close>

datatype call = InterceptSystemJsProps key val | ClearSystemJsProps val bool

text \<open>
  The world: the host, what a host setter does to the host when it is called
  (\<open>Some e\<close>: it throws), what a call \<^verbatim>\<open>f(p)\<close> of a function other than the built-in
  ones does (its result or exception, and its effect on the host),
  \<^verbatim>\<open>process.env.NODE_ENV\<close>, the module-level counter
  \<^verbatim>\<open>activeSandboxCount\<close>, the instances by identity, the number of instances
  constructed so far, and the calls made to the collaborator.
\<close>

record world =
  host :: host
  setterEffect :: "nat \<Rightarrow> val \<Rightarrow> host \<Rightarrow> exn option \<times> host"
  hostCall :: "val \<Rightarrow> key \<Rightarrow> host \<Rightarrow> (exn + val) \<times> host"
  nodeEnv :: string
  activeSandboxCount :: int
  instances :: "nat \<Rightarrow> sandbox"
  allocated :: nat
  systemJsCalls :: "call list"

text \<open>Modelled from the spec: \<^verbatim>\<open>attachDocProxySymbol\<close> of \<^verbatim>\<open>./common\<close> (not among the
  sources) is the key under which the document layer keeps its Attribution Tag.\<close>

definition attachDocProxySymbol :: key where
  "attachDocProxySymbol = Symbol ''attachDocProxySymbol''"

text \<open>Modelled from the spec: \<^verbatim>\<open>getTargetValue\<close> of \<^verbatim>\<open>./common\<close> (not among the
  sources) rebinds every function-typed result to the given receiver and returns every
  other value as it is.\<close>

definition getTargetValue :: "val \<Rightarrow> val \<Rightarrow> val" where
  "getTargetValue target v = (if isCallable v then Bound v target else v)"

text \<open>Modelled from the spec: \<^verbatim>\<open>getCreateElement\<close> of \<^verbatim>\<open>./patchers/dynamicAppend\<close>
  (not among the sources) yields the element-creation function scoped to the owner
  it is given.\<close>

definition getCreateElement :: "val \<Rightarrow> val" where
  "getCreateElement owner = CreateElementOf owner"

subsection \<open>\<^verbatim>\<open>unscopables\<close> and \<^verbatim>\<open>createFakeWindow\<close>\<close>

text \<open>The own keys of the table \<^verbatim>\<open>unscopables\<close> (lines 17 to 29); each holds \<^verbatim>\<open>true\<close>.\<close>

definition unscopables :: "string list" where
  "unscopables =
     [''undefined'', ''Array'', ''Object'', ''String'', ''Boolean'', ''Math'', ''eval'',
      ''Number'', ''Symbol'', ''parseFloat'', ''Float32Array'']"

text \<open>\<^verbatim>\<open>p in unscopables\<close>: the table is a plain object, so it inherits from
  \<^verbatim>\<open>Object.prototype\<close>.\<close>

definition inUnscopables :: "host \<Rightarrow> key \<Rightarrow> bool" where
  "inUnscopables h p = (p \<in> set (map Str unscopables) \<or> p \<in> set (map fst (objectPrototype h)))"

text \<open>
  The test of lines 65 to 71 and again of lines 233 to 239: the self-reference names,
  and two more when \<^verbatim>\<open>process.env.NODE_ENV === 'test'\<close>.
\<close>

definition isSelfReference :: "string \<Rightarrow> key \<Rightarrow> bool" where
  "isSelfReference env p =
     (p = Str ''top'' \<or> p = Str ''parent'' \<or> p = Str ''self'' \<or> p = Str ''window'' \<or>
      (env = ''test'' \<and> (p = Str ''mockTop'' \<or> p = Str ''mockSafariTop'')))"

text \<open>Lines 72 to 81: \<^verbatim>\<open>configurable = true\<close>, and \<^verbatim>\<open>writable = true\<close> unless the
  descriptor has a getter.\<close>

fun relax :: "descriptor \<Rightarrow> descriptor" where
  "relax (Data v w e c) = Data v True e True"
| "relax (Accessor g s e c) = Accessor g s e True"

text \<open>
  \<^verbatim>\<open>createFakeWindow(global)\<close>: \<^verbatim>\<open>Object.getOwnPropertyNames\<close> lists the string keys
  and the filter (lines 50 to 54) keeps the non-configurable ones.
\<close>

definition nonConfigurable :: "jsobj \<Rightarrow> jsobj" where
  "nonConfigurable global = filter (\<lambda>(p, d). isString p \<and> \<not> configurable d) global"

text \<open>
  The \<^verbatim>\<open>forEach\<close> (lines 55 to 90) copies each of them into the fresh \<^verbatim>\<open>fakeWindow\<close>,
  relaxed when it is a self-reference name, and records it in \<^verbatim>\<open>propertiesWithGetter\<close>
  when its descriptor has a getter.
\<close>

definition createFakeWindow :: "string \<Rightarrow> jsobj \<Rightarrow> jsobj \<times> key set" where
  "createFakeWindow env global =
     (map (\<lambda>(p, d). (p, if isSelfReference env p then relax d else d)) (nonConfigurable global),
      set (map fst (filter (\<lambda>(p, d). hasGetter d) (nonConfigurable global))))"

subsection \<open>Reading the host and the overlay\<close>

text \<open>\<^verbatim>\<open>rawWindow[p]\<close>, \<^verbatim>\<open>p in rawWindow\<close> and the same for \<^verbatim>\<open>rawDocument\<close>: the
  prototype chain of either ends in \<^verbatim>\<open>Object.prototype\<close>.\<close>

definition rawWindow_get :: "host \<Rightarrow> key \<Rightarrow> val" where
  "rawWindow_get h p =
     js_get (getterResult h) (rawWindowProto h @ objectPrototype h) (rawWindow h) p"

definition rawWindow_in :: "host \<Rightarrow> key \<Rightarrow> bool" where
  "rawWindow_in h p = js_in (rawWindowProto h @ objectPrototype h) (rawWindow h) p"

definition rawDocument_get :: "host \<Rightarrow> key \<Rightarrow> val" where
  "rawDocument_get h p =
     js_get (getterResult h) (rawDocumentProto h @ objectPrototype h) (rawDocument h) p"

definition rawDocument_in :: "host \<Rightarrow> key \<Rightarrow> bool" where
  "rawDocument_in h p = js_in (rawDocumentProto h @ objectPrototype h) (rawDocument h) p"

text \<open>\<^verbatim>\<open>target[p]\<close> and \<^verbatim>\<open>p in target\<close> for the two object literals \<^verbatim>\<open>fakeWindow\<close> and
  \<^verbatim>\<open>fakeDocument\<close>, whose prototype is \<^verbatim>\<open>Object.prototype\<close>.\<close>

definition target_get :: "host \<Rightarrow> jsobj \<Rightarrow> key \<Rightarrow> val" where
  "target_get h target p = js_get (getterResult h) (objectPrototype h) target p"

definition target_in :: "host \<Rightarrow> jsobj \<Rightarrow> key \<Rightarrow> bool" where
  "target_in h target p = js_in (objectPrototype h) target p"

text \<open>
  A strict assignment \<^verbatim>\<open>target[p] = v\<close> in the world, for \<^verbatim>\<open>fakeWindow\<close> and
  \<^verbatim>\<open>fakeDocument\<close>: the new object, or the exception. A setter copied from the host
  runs as host code on the host; the setter of \<^verbatim>\<open>__proto__\<close> leaves the own properties
  and the host as they are.
\<close>

definition strictAssign :: "jsobj \<Rightarrow> key \<Rightarrow> val \<Rightarrow> world \<Rightarrow> (exn + jsobj) \<times> world" where
  "strictAssign target p v w =
     (case js_assign (objectPrototype (host w)) target p v of
        Stored target' \<Rightarrow> (Inr target', w)
      | ReadOnly \<Rightarrow> (Inl TypeError, w)
      | ViaProtoSetter \<Rightarrow> (Inr target, w)
      | ViaSetter f \<Rightarrow>
          (case setterEffect w f v (host w) of
             (Some e, h) \<Rightarrow> (Inl e, w\<lparr>host := h\<rparr>)
           | (None, h) \<Rightarrow> (Inr target, w\<lparr>host := h\<rparr>)))"

text \<open>\<^verbatim>\<open>Reflect.set(target, p, v)\<close>: reports a refused assignment as \<^verbatim>\<open>false\<close>.\<close>

definition reflectSet :: "jsobj \<Rightarrow> key \<Rightarrow> val \<Rightarrow> world \<Rightarrow> (exn + bool \<times> jsobj) \<times> world" where
  "reflectSet target p v w =
     (case js_assign (objectPrototype (host w)) target p v of
        Stored target' \<Rightarrow> (Inr (True, target'), w)
      | ReadOnly \<Rightarrow> (Inr (False, target), w)
      | ViaProtoSetter \<Rightarrow> (Inr (True, target), w)
      | ViaSetter f \<Rightarrow>
          (case setterEffect w f v (host w) of
             (Some e, h) \<Rightarrow> (Inl e, w\<lparr>host := h\<rparr>)
           | (None, h) \<Rightarrow> (Inr (True, target), w\<lparr>host := h\<rparr>)))"

subsection \<open>The document proxy (lines 150 to 205)\<close>

definition withFakeDocument :: "nat \<Rightarrow> jsobj \<Rightarrow> world \<Rightarrow> world" where
  "withFakeDocument i target w =
     w\<lparr>instances := (instances w)(i := (instances w i)\<lparr>fakeDocument := target\<rparr>)\<rparr>"

text \<open>
  The \<^verbatim>\<open>set\<close> trap. A new tag is stored and the element-creation function of its owner
  is cached with it; a write of \<^verbatim>\<open>createElement\<close> stores the caller's function; both
  rebound to the real document. Every other key goes to \<^verbatim>\<open>Reflect.set\<close>.
\<close>

definition doc_set :: "nat \<Rightarrow> key \<Rightarrow> val \<Rightarrow> world \<Rightarrow> (exn + bool) \<times> world" where
  "doc_set i p v w =
     (let target = fakeDocument (instances w i) in
      if p = attachDocProxySymbol \<and> \<not> strictEq (target_get (host w) target p) v then
        (case strictAssign target p v w of
           (Inl e, w1) \<Rightarrow> (Inl e, w1)
         | (Inr t1, w1) \<Rightarrow>
             (case strictAssign t1 (Str ''createElement'')
                     (getTargetValue RawDocument (getCreateElement v)) w1 of
                (Inl e, w2) \<Rightarrow> (Inl e, withFakeDocument i t1 w2)
              | (Inr t2, w2) \<Rightarrow> (Inr True, withFakeDocument i t2 w2)))
      else if p = Str ''createElement'' then
        (case strictAssign target (Str ''createElement'') (getTargetValue RawDocument v) w of
           (Inl e, w1) \<Rightarrow> (Inl e, w1)
         | (Inr t1, w1) \<Rightarrow> (Inr True, withFakeDocument i t1 w1))
      else
        (case reflectSet target p v w of
           (Inl e, w1) \<Rightarrow> (Inl e, w1)
         | (Inr (ok, t1), w1) \<Rightarrow> (Inr ok, withFakeDocument i t1 w1)))"

definition doc_get :: "nat \<Rightarrow> key \<Rightarrow> world \<Rightarrow> val" where
  "doc_get i p w =
     (if p = Str ''hasOwnProperty'' then DocHasOwnPropertyFn i
      else if p = attachDocProxySymbol \<or> p = Str ''createElement'' then
        target_get (host w) (fakeDocument (instances w i)) p
      else getTargetValue RawDocument (rawDocument_get (host w) p))"

definition doc_has :: "nat \<Rightarrow> key \<Rightarrow> world \<Rightarrow> bool" where
  "doc_has i p w =
     (target_in (host w) (fakeDocument (instances w i)) p \<or> rawDocument_in (host w) p)"

text \<open>
  The \<^verbatim>\<open>deleteProperty\<close> trap (lines 193 to 204). For the tag key and for
  \<^verbatim>\<open>createElement\<close> it runs \<^verbatim>\<open>delete target[p]\<close> and then
  \<^verbatim>\<open>delete target.createElement\<close>, and returns \<^verbatim>\<open>true\<close>; every other key goes to
  \<^verbatim>\<open>Reflect.deleteProperty\<close>, which reports a refused delete as \<^verbatim>\<open>false\<close>.
\<close>

definition doc_deleteProperty :: "nat \<Rightarrow> key \<Rightarrow> world \<Rightarrow> (exn + bool) \<times> world" where
  "doc_deleteProperty i p w =
     (let target = fakeDocument (instances w i) in
      if p = attachDocProxySymbol \<or> p = Str ''createElement'' then
        (case js_delete target p of
           None \<Rightarrow> (Inl TypeError, w)
         | Some t1 \<Rightarrow>
             (case js_delete t1 (Str ''createElement'') of
                None \<Rightarrow> (Inl TypeError, withFakeDocument i t1 w)
              | Some t2 \<Rightarrow> (Inr True, withFakeDocument i t2 w)))
      else
        (case js_delete target p of
           None \<Rightarrow> (Inr False, w)
         | Some t1 \<Rightarrow> (Inr True, withFakeDocument i t1 w)))"

subsection \<open>The window proxy (lines 207 to 316)\<close>

text \<open>
  The \<^verbatim>\<open>set\<close> trap (lines 208 to 225). While the instance runs: the strict assignment
  \<^verbatim>\<open>target[p] = value\<close>, then \<^verbatim>\<open>updatedValueSet.add(p)\<close>, then the collaborator's
  hook, then \<^verbatim>\<open>true\<close>. Otherwise \<^verbatim>\<open>true\<close> and nothing else.
\<close>

definition proxy_set :: "nat \<Rightarrow> key \<Rightarrow> val \<Rightarrow> world \<Rightarrow> (exn + bool) \<times> world" where
  "proxy_set i p v w =
     (if sandboxRunning (instances w i) then
        (case strictAssign (fakeWindow (instances w i)) p v w of
           (Inl e, w1) \<Rightarrow> (Inl e, w1)
         | (Inr target, w1) \<Rightarrow>
             (Inr True,
              w1\<lparr>instances := (instances w1)(i := (instances w1 i)
                     \<lparr>fakeWindow := target,
                      updatedValueSet := insert p (updatedValueSet (instances w1 i))\<rparr>),
                  systemJsCalls := systemJsCalls w1 @ [InterceptSystemJsProps p v]\<rparr>))
      else (Inr True, w))"

text \<open>
  The \<^verbatim>\<open>get\<close> trap (lines 227 to 257), test by test. Reading \<^verbatim>\<open>document\<close> assigns the
  tag through the document proxy; that assignment is strict code, so a \<^verbatim>\<open>set\<close> trap
  that reports \<^verbatim>\<open>false\<close> raises \<^verbatim>\<open>TypeError\<close>. The last line reads
  \<^verbatim>\<open>propertiesWithGetter.has(p) ? rawWindow[p] : target[p] || rawWindow[p]\<close>.
\<close>

definition proxy_get :: "nat \<Rightarrow> key \<Rightarrow> world \<Rightarrow> (exn + val) \<times> world" where
  "proxy_get i p w =
     (if p = SymbolUnscopables then (Inr Unscopables, w)
      else if isSelfReference (nodeEnv w) p then (Inr (WindowProxy i), w)
      else if p = Str ''hasOwnProperty'' then (Inr (HasOwnPropertyFn i), w)
      else if p = Str ''document'' then
        (case doc_set i attachDocProxySymbol (WindowProxy i) w of
           (Inl e, w1) \<Rightarrow> (Inl e, w1)
         | (Inr ok, w1) \<Rightarrow> if ok then (Inr (DocumentProxy i), w1) else (Inl TypeError, w1))
      else
        (let value =
           (if p \<in> propertiesWithGetter (instances w i) then rawWindow_get (host w) p
            else if truthy (target_get (host w) (fakeWindow (instances w i)) p)
              then target_get (host w) (fakeWindow (instances w i)) p
              else rawWindow_get (host w) p)
         in (Inr (getTargetValue RawWindow value), w)))"

text \<open>The \<^verbatim>\<open>has\<close> trap (line 262).\<close>

definition proxy_has :: "nat \<Rightarrow> key \<Rightarrow> world \<Rightarrow> bool" where
  "proxy_has i p w =
     (inUnscopables (host w) p \<or> target_in (host w) (fakeWindow (instances w i)) p \<or>
      rawWindow_in (host w) p)"

text \<open>
  The call \<^verbatim>\<open>target.hasOwnProperty(p)\<close> of line 306 (the same call is made at lines 146,
  148 and 271). The method is looked up on the target like any property, so a hosted
  write of the key \<^verbatim>\<open>hasOwnProperty\<close> shadows the built-in one: a value that is not a
  function raises \<^verbatim>\<open>TypeError\<close>, another function is run by the host and its result is
  taken for its truthiness.
\<close>

definition callHasOwnProperty :: "jsobj \<Rightarrow> key \<Rightarrow> world \<Rightarrow> (exn + bool) \<times> world" where
  "callHasOwnProperty target p w =
     (let f = target_get (host w) target (Str ''hasOwnProperty'') in
      if f = ObjectHasOwnProperty then (Inr (owns target p), w)
      else if isCallable f then
        (case hostCall w f p (host w) of
           (Inl e, h) \<Rightarrow> (Inl e, w\<lparr>host := h\<rparr>)
         | (Inr r, h) \<Rightarrow> (Inr (truthy r), w\<lparr>host := h\<rparr>))
      else (Inl TypeError, w))"

text \<open>The \<^verbatim>\<open>deleteProperty\<close> trap (lines 305 to 315); \<^verbatim>\<open>delete target[p]\<close> is strict.\<close>

definition proxy_deleteProperty :: "nat \<Rightarrow> key \<Rightarrow> world \<Rightarrow> (exn + bool) \<times> world" where
  "proxy_deleteProperty i p w =
     (case callHasOwnProperty (fakeWindow (instances w i)) p w of
        (Inl e, w1) \<Rightarrow> (Inl e, w1)
      | (Inr has, w1) \<Rightarrow>
          if has then
            (case js_delete (fakeWindow (instances w1 i)) p of
               None \<Rightarrow> (Inl TypeError, w1)
             | Some target \<Rightarrow>
                 (Inr True,
                  w1\<lparr>instances := (instances w1)(i := (instances w1 i)
                        \<lparr>fakeWindow := target,
                         updatedValueSet := updatedValueSet (instances w1 i) - {p}\<rparr>)\<rparr>))
          else (Inr True, w1))"

subsection \<open>Through the handle\<close>

text \<open>
  Hosted code does not call the traps; it uses the \<^verbatim>\<open>Proxy\<close> that line 207 builds over
  \<^verbatim>\<open>fakeWindow\<close>. After a trap has answered, the engine compares the answer with the
  target and raises \<^verbatim>\<open>TypeError\<close> when an invariant is broken:
  \<^item> \<^verbatim>\<open>set\<close> answered \<^verbatim>\<open>true\<close>, but the target holds the key as a non-configurable
    read-only data property with another value, or as a non-configurable accessor
    without a setter;
  \<^item> \<^verbatim>\<open>deleteProperty\<close> answered \<^verbatim>\<open>true\<close>, but the target holds the key as a
    non-configurable property;
  \<^item> \<^verbatim>\<open>get\<close> answered with a value other than the one the target holds in a
    non-configurable read-only data property, or with a value other than \<^verbatim>\<open>undefined\<close>
    where the target holds a non-configurable accessor without a getter.
  A \<^verbatim>\<open>false\<close> from \<^verbatim>\<open>set\<close> or \<^verbatim>\<open>deleteProperty\<close> raises \<^verbatim>\<open>TypeError\<close> in strict code.
\<close>

definition setRefused :: "jsobj \<Rightarrow> key \<Rightarrow> val \<Rightarrow> bool" where
  "setRefused target p v =
     (case map_of target p of
        Some (Data old w e c) \<Rightarrow> \<not> c \<and> \<not> w \<and> old \<noteq> v
      | Some (Accessor g s e c) \<Rightarrow> \<not> c \<and> s = None
      | None \<Rightarrow> False)"

definition deleteRefused :: "jsobj \<Rightarrow> key \<Rightarrow> bool" where
  "deleteRefused target p =
     (case map_of target p of Some d \<Rightarrow> \<not> configurable d | None \<Rightarrow> False)"

definition getRefused :: "jsobj \<Rightarrow> key \<Rightarrow> val \<Rightarrow> bool" where
  "getRefused target p v =
     (case map_of target p of
        Some (Data old w e c) \<Rightarrow> \<not> c \<and> \<not> w \<and> old \<noteq> v
      | Some (Accessor g s e c) \<Rightarrow> \<not> c \<and> g = None \<and> v \<noteq> Undefined
      | None \<Rightarrow> False)"

text \<open>\<^verbatim>\<open>proxy[p] = v\<close> in strict code.\<close>

definition handle_set :: "nat \<Rightarrow> key \<Rightarrow> val \<Rightarrow> world \<Rightarrow> (exn + bool) \<times> world" where
  "handle_set i p v w =
     (case proxy_set i p v w of
        (Inl e, w1) \<Rightarrow> (Inl e, w1)
      | (Inr ok, w1) \<Rightarrow>
          if ok \<and> \<not> setRefused (fakeWindow (instances w1 i)) p v then (Inr True, w1)
          else (Inl TypeError, w1))"

text \<open>\<^verbatim>\<open>delete proxy[p]\<close> in strict code.\<close>

definition handle_deleteProperty :: "nat \<Rightarrow> key \<Rightarrow> world \<Rightarrow> (exn + bool) \<times> world" where
  "handle_deleteProperty i p w =
     (case proxy_deleteProperty i p w of
        (Inl e, w1) \<Rightarrow> (Inl e, w1)
      | (Inr ok, w1) \<Rightarrow>
          if ok \<and> \<not> deleteRefused (fakeWindow (instances w1 i)) p then (Inr True, w1)
          else (Inl TypeError, w1))"

text \<open>\<^verbatim>\<open>proxy[p]\<close>.\<close>

definition handle_get :: "nat \<Rightarrow> key \<Rightarrow> world \<Rightarrow> (exn + val) \<times> world" where
  "handle_get i p w =
     (case proxy_get i p w of
        (Inl e, w1) \<Rightarrow> (Inl e, w1)
      | (Inr v, w1) \<Rightarrow>
          if getRefused (fakeWindow (instances w1 i)) p v then (Inl TypeError, w1)
          else (Inr v, w1))"

subsection \<open>The instance: constructor, \<^verbatim>\<open>active\<close>, \<^verbatim>\<open>inactive\<close>\<close>

text \<open>
  \<^verbatim>\<open>new ProxySandbox(name)\<close> (lines 105, 115 and 133 to 320): the field initialisers
  give an empty \<^verbatim>\<open>updatedValueSet\<close> and \<^verbatim>\<open>sandboxRunning = true\<close>; the constructor
  snapshots the real window and starts from an empty \<^verbatim>\<open>fakeDocument\<close>. The new
  instance gets the next identity; its two proxies are \<open>WindowProxy i\<close> and
  \<open>DocumentProxy i\<close>.
\<close>

definition construct :: "string \<Rightarrow> world \<Rightarrow> nat \<times> world" where
  "construct nm w =
     (let i = allocated w;
          (fw, getters) = createFakeWindow (nodeEnv w) (rawWindow (host w))
      in (i, w\<lparr>instances := (instances w)(i :=
                   \<lparr>name = nm, sandboxRunning = True, updatedValueSet = {},
                    fakeWindow = fw, propertiesWithGetter = getters, fakeDocument = []\<rparr>),
               allocated := Suc i\<rparr>))"

text \<open>\<^verbatim>\<open>active()\<close> (lines 117 to 120).\<close>

definition active :: "nat \<Rightarrow> world \<Rightarrow> world" where
  "active i w =
     (let w1 = (if \<not> sandboxRunning (instances w i)
                then w\<lparr>activeSandboxCount := activeSandboxCount w + 1\<rparr> else w)
      in w1\<lparr>instances := (instances w1)(i := (instances w1 i)\<lparr>sandboxRunning := True\<rparr>)\<rparr>)"

text \<open>\<^verbatim>\<open>inactive()\<close> (lines 122 to 131): \<^verbatim>\<open>--activeSandboxCount === 0\<close> decrements
  first and compares the new count.\<close>

definition inactive :: "nat \<Rightarrow> world \<Rightarrow> world" where
  "inactive i w =
     (let n = activeSandboxCount w - 1;
          w1 = w\<lparr>activeSandboxCount := n,
                 systemJsCalls := systemJsCalls w @ [ClearSystemJsProps (WindowProxy i) (n = 0)]\<rparr>
      in w1\<lparr>instances := (instances w1)(i := (instances w1 i)\<lparr>sandboxRunning := False\<rparr>)\<rparr>)"

subsection \<open>Predicates of the statements\<close>

text \<open>The keys the \<^verbatim>\<open>get\<close> trap answers before it looks anything up (lines 228 to 252).\<close>

definition reserved :: "string \<Rightarrow> key \<Rightarrow> bool" where
  "reserved env p =
     (p = SymbolUnscopables \<or> isSelfReference env p \<or> p = Str ''hasOwnProperty'' \<or>
      p = Str ''document'')"

text \<open>A key the strict assignment \<^verbatim>\<open>target[p] = v\<close> stores into the target: a writable
  data property of it, or absent from it and not the inherited \<^verbatim>\<open>__proto__\<close>.\<close>

fun writable :: "descriptor \<Rightarrow> bool" where
  "writable (Data v w e c) = w"
| "writable (Accessor g s e c) = False"

definition storable :: "host \<Rightarrow> jsobj \<Rightarrow> key \<Rightarrow> bool" where
  "storable h obj p =
     (case map_of obj p of
        None \<Rightarrow> \<not> (p = Str ''__proto__'' \<and> p \<in> set (map fst (objectPrototype h)))
      | Some d \<Rightarrow> writable d)"

text \<open>The target's \<^verbatim>\<open>hasOwnProperty\<close> is the built-in method.\<close>

definition builtinHasOwnProperty :: "host \<Rightarrow> jsobj \<Rightarrow> bool" where
  "builtinHasOwnProperty h target =
     (target_get h target (Str ''hasOwnProperty'') = ObjectHasOwnProperty)"

text \<open>A key \<^verbatim>\<open>delete target[p]\<close> accepts: absent, or configurable.\<close>

definition deletable :: "jsobj \<Rightarrow> key \<Rightarrow> bool" where
  "deletable obj p = (case map_of obj p of None \<Rightarrow> True | Some d \<Rightarrow> configurable d)"

text \<open>Two worlds offer a trap the same host: the view of every instance they agree on
  is then the same.\<close>

definition sameHost :: "world \<Rightarrow> world \<Rightarrow> bool" where
  "sameHost w w' = (host w' = host w \<and> setterEffect w' = setterEffect w \<and> nodeEnv w' = nodeEnv w)"

subsection \<open>An example world\<close>

text \<open>
  A small browser-like host. \<^verbatim>\<open>window\<close>, \<^verbatim>\<open>top\<close> and \<^verbatim>\<open>document\<close> are
  non-configurable accessors without a setter, \<^verbatim>\<open>location\<close> has a setter that throws
  on a foreign receiver, \<^verbatim>\<open>NaN\<close> is a read-only non-configurable data property,
  \<^verbatim>\<open>mockSafariTop\<close> is a non-configurable accessor with a setter that does nothing,
  \<^verbatim>\<open>Array\<close> and \<^verbatim>\<open>version\<close> are configurable data properties. The host has no
  \<^verbatim>\<open>Float32Array\<close>.
\<close>

definition exampleHost :: host where
  "exampleHost =
     \<lparr>rawWindow =
        [(Str ''window'', Accessor (Some 1) None True False),
         (Str ''top'', Accessor (Some 1) None True False),
         (Str ''document'', Accessor (Some 2) None True False),
         (Str ''location'', Accessor (Some 3) (Some 4) True False),
         (Str ''NaN'', Data NaN False False False),
         (Str ''mockSafariTop'', Accessor (Some 1) (Some 5) False False),
         (Str ''Array'', Data (Fn 10) True False True),
         (Str ''version'', Data (Num 5) True True True)],
      rawWindowProto = [(Str ''addEventListener'', Fn 20), (Str ''__proto__'', Obj 1)],
      rawDocument = [(Str ''location'', Accessor (Some 3) (Some 4) True False)],
      rawDocumentProto = [(Str ''createElement'', Fn 21)],
      objectPrototype =
        [(Str ''hasOwnProperty'', ObjectHasOwnProperty), (Str ''toString'', Fn 31),
         (Str ''__proto__'', ObjectPrototype)],
      getterResult = (\<lambda>f. if f = 1 then RawWindow else if f = 2 then RawDocument
                         else if f = 3 then Obj 3 else Undefined)\<rparr>"

definition noInstance :: sandbox where
  "noInstance = \<lparr>name = [], sandboxRunning = False, updatedValueSet = {}, fakeWindow = [],
      propertiesWithGetter = {}, fakeDocument = []\<rparr>"

definition exampleWorld :: world where
  "exampleWorld =
     \<lparr>host = exampleHost,
      setterEffect = (\<lambda>f v h. if f = 4 then (Some TypeError, h) else (None, h)),
      hostCall = (\<lambda>f p h. (Inr Undefined, h)),
      nodeEnv = ''production'',
      activeSandboxCount = 0,
      instances = (\<lambda>i. noInstance),
      allocated = 0,
      systemJsCalls = []\<rparr>"

text \<open>The world after \<^verbatim>\<open>new ProxySandbox('A')\<close>; the instance has identity 0.\<close>

definition exampleA :: world where
  "exampleA = snd (construct ''A'' exampleWorld)"

text \<open>The world after a second \<^verbatim>\<open>new ProxySandbox('B')\<close>; that instance has identity 1.\<close>

definition exampleAB :: world where
  "exampleAB = snd (construct ''B'' exampleA)"

text \<open>The same host under \<^verbatim>\<open>NODE_ENV = 'test'\<close>, after \<^verbatim>\<open>new ProxySandbox('A')\<close>.\<close>

definition exampleTest :: world where
  "exampleTest = snd (construct ''A'' (exampleWorld\<lparr>nodeEnv := ''test''\<rparr>))"

text \<open>The world \<open>exampleA\<close> after hosted code has read \<^verbatim>\<open>document\<close> through the handle.\<close>

definition exampleDoc :: world where
  "exampleDoc = snd (proxy_get 0 (Str ''document'') exampleA)"

section \<open>Properties\<close>

subsection \<open>Assignments the overlay stores\<close>

lemma storable_assign:
  assumes "storable h obj p"
  obtains t e c where "js_assign (objectPrototype h) obj p v = Stored t"
    and "map_of t p = Some (Data v True e c)"
    and "\<And>q. q \<noteq> p \<Longrightarrow> map_of t q = map_of obj q"
proof (cases "map_of obj p")
  case None
  then have np: "\<not> (p = Str ''__proto__'' \<and> p \<in> set (map fst (objectPrototype h)))"
    using assms by (simp add: storable_def)
  show ?thesis
  proof (rule that)
    show "js_assign (objectPrototype h) obj p v = Stored (obj @ [(p, Data v True True True)])"
      using None np by (simp add: js_assign_def)
    show "map_of (obj @ [(p, Data v True True True)]) p = Some (Data v True True True)"
      using None by (simp add: map_add_def)
    show "map_of (obj @ [(p, Data v True True True)]) q = map_of obj q" if "q \<noteq> p" for q
      using that by (simp add: map_add_def split: option.splits)
  qed
next
  case (Some d)
  with assms obtain old e c where d: "d = Data old True e c"
    by (cases d) (auto simp: storable_def)
  show ?thesis
  proof (rule that)
    show "js_assign (objectPrototype h) obj p v = Stored (AList.update p (Data v True e c) obj)"
      using Some d by (simp add: js_assign_def)
    show "map_of (AList.update p (Data v True e c) obj) p = Some (Data v True e c)"
      by (simp add: update_conv')
    show "map_of (AList.update p (Data v True e c) obj) q = map_of obj q" if "q \<noteq> p" for q
      using that by (simp add: update_conv')
  qed
qed

lemma map_of_owns: "map_of obj p = Some d \<Longrightarrow> owns obj p"
  by (auto simp: owns_def dest: map_of_SomeD intro: rev_image_eqI)

lemma not_owns_map_of: "\<not> owns obj p \<Longrightarrow> map_of obj p = None"
  by (simp add: owns_def map_of_eq_None_iff)

lemma stored_value:
  assumes "map_of t p = Some (Data v True e c)"
  shows "js_get run proto t p = v" and "owns t p"
    and "\<not> setRefused t p v'" and "\<not> getRefused t p v'"
  using assms map_of_owns [OF assms]
  by (simp_all add: js_get_def setRefused_def getRefused_def)

text \<open>What the \<^verbatim>\<open>set\<close> trap does with a key the overlay stores, on a running instance.\<close>

lemma proxy_set_storable:
  assumes "sandboxRunning (instances w i)"
    and "storable (host w) (fakeWindow (instances w i)) p"
  obtains t e c where
    "proxy_set i p v w =
       (Inr True,
        w\<lparr>instances := (instances w)(i := (instances w i)
              \<lparr>fakeWindow := t, updatedValueSet := insert p (updatedValueSet (instances w i))\<rparr>),
          systemJsCalls := systemJsCalls w @ [InterceptSystemJsProps p v]\<rparr>)"
    and "map_of t p = Some (Data v True e c)"
    and "\<And>q. q \<noteq> p \<Longrightarrow> map_of t q = map_of (fakeWindow (instances w i)) q"
proof -
  obtain t e c where t: "js_assign (objectPrototype (host w)) (fakeWindow (instances w i)) p v = Stored t"
    "map_of t p = Some (Data v True e c)"
    "\<And>q. q \<noteq> p \<Longrightarrow> map_of t q = map_of (fakeWindow (instances w i)) q"
    by (rule storable_assign [OF assms(2)]) blast
  show ?thesis
    by (rule that [of t e c]) (simp_all add: proxy_set_def strictAssign_def t assms(1))
qed


subsection \<open>The snapshot and the constructor\<close>



lemma construct_fresh:
  assumes "construct nm w = (i, w')"
  shows "i = allocated w"
    and "instances w' i =
           \<lparr>name = nm, sandboxRunning = True, updatedValueSet = {},
            fakeWindow = fst (createFakeWindow (nodeEnv w) (rawWindow (host w))),
            propertiesWithGetter = snd (createFakeWindow (nodeEnv w) (rawWindow (host w))),
            fakeDocument = []\<rparr>"
    and "\<And>j. j \<noteq> i \<Longrightarrow> instances w' j = instances w j"
    and "host w' = host w" and "nodeEnv w' = nodeEnv w" and "setterEffect w' = setterEffect w"
    and "activeSandboxCount w' = activeSandboxCount w"
    and "systemJsCalls w' = systemJsCalls w" and "allocated w' = Suc (allocated w)"
  using assms by (auto simp: construct_def Let_def split: prod.splits)

subsection \<open>What a read depends on\<close>





subsection \<open>The example world, evaluated\<close>

lemmas example_defs =
  exampleA_def exampleWorld_def exampleHost_def noInstance_def construct_def
  createFakeWindow_def nonConfigurable_def isSelfReference_def

lemma exampleA_instance:
  "instances exampleA 0 =
     \<lparr>name = ''A'', sandboxRunning = True, updatedValueSet = {},
      fakeWindow =
        [(Str ''window'', Accessor (Some 1) None True True),
         (Str ''top'', Accessor (Some 1) None True True),
         (Str ''document'', Accessor (Some 2) None True False),
         (Str ''location'', Accessor (Some 3) (Some 4) True False),
         (Str ''NaN'', Data NaN False False False),
         (Str ''mockSafariTop'', Accessor (Some 1) (Some 5) False False)],
      propertiesWithGetter =
        {Str ''window'', Str ''top'', Str ''document'', Str ''location'', Str ''mockSafariTop''},
      fakeDocument = []\<rparr>"
  apply (simp add: exampleA_def construct_def exampleWorld_def)
  apply (simp add: exampleHost_def)
  apply (simp add: createFakeWindow_def nonConfigurable_def)
  apply (simp add: isSelfReference_def)
  done

lemma exampleA_world:
  "host exampleA = exampleHost" "nodeEnv exampleA = ''production''"
  "activeSandboxCount exampleA = 0" "systemJsCalls exampleA = []"
  "setterEffect exampleA = (\<lambda>f v h. if f = 4 then (Some TypeError, h) else (None, h))"
  by (simp_all add: example_defs)

lemma rawWindow_absent:
  assumes "\<not> rawWindow_in h p"
  shows "rawWindow_get h p = Undefined"
proof -
  have "map_of (rawWindow h) p = None" and "map_of (rawWindowProto h) p = None"
    and "map_of (objectPrototype h) p = None"
    using assms by (simp_all add: rawWindow_in_def js_in_def owns_def map_of_eq_None_iff)
  then show ?thesis by (simp add: rawWindow_get_def js_get_def map_add_def)
qed

lemma target_absent:
  assumes "\<not> target_in h t p"
  shows "target_get h t p = Undefined"
proof -
  have "map_of t p = None" and "map_of (objectPrototype h) p = None"
    using assms by (simp_all add: target_in_def js_in_def owns_def map_of_eq_None_iff)
  then show ?thesis by (simp add: target_get_def js_get_def)
qed

subsection \<open>Writing while inactive\<close>

lemma exampleA_inactive:
  "instances (inactive 0 exampleA) 0 = (instances exampleA 0)\<lparr>sandboxRunning := False\<rparr>"
  by (simp add: inactive_def Let_def)

text \<open>
  C7, as amended. A write through the handle of an instance that is not running never
  changes the Mutation Set \<^verbatim>\<open>updatedValueSet\<close>, nor anything else in the world. It
  reports success, unless the overlay holds the key as a non-configurable read-only
  data property with another value or as a non-configurable accessor without a setter
  (the copies the snapshot made of such properties of the real window): for those the
  trap still returns \<^verbatim>\<open>true\<close>, and the \<^verbatim>\<open>Proxy\<close> raises \<^verbatim>\<open>TypeError\<close> to the caller.
\<close>

theorem inactive_write_changes_nothing:
  assumes "\<not> sandboxRunning (instances w i)"
  shows "handle_set i p v w =
           (if setRefused (fakeWindow (instances w i)) p v then Inl TypeError else Inr True, w) \<and>
         updatedValueSet (instances (snd (handle_set i p v w)) i) =
           updatedValueSet (instances w i)"
  using assms by (simp add: handle_set_def proxy_set_def)

lemma exampleA_refused:
  "\<not> setRefused (fakeWindow (instances exampleA 0)) (Str ''counter'') (Num 1)"
  "setRefused (fakeWindow (instances exampleA 0)) (Str ''NaN'') (Num 1)"
  "setRefused (fakeWindow (instances exampleA 0)) (Str ''document'') (Num 1)"
  by (simp_all add: exampleA_instance setRefused_def)

theorem inactive_write_changes_nothing_witness:
  "\<not> sandboxRunning (instances (inactive 0 exampleA) 0) \<and>
   \<not> setRefused (fakeWindow (instances (inactive 0 exampleA) 0)) (Str ''counter'') (Num 1) \<and>
   handle_set 0 (Str ''counter'') (Num 1) (inactive 0 exampleA) = (Inr True, inactive 0 exampleA) \<and>
   updatedValueSet
     (instances (snd (handle_set 0 (Str ''counter'') (Num 1) (inactive 0 exampleA))) 0) = {}"
proof -
  have h: "\<not> sandboxRunning (instances (inactive 0 exampleA) 0)"
    by (simp add: exampleA_inactive)
  have r: "\<not> setRefused (fakeWindow (instances (inactive 0 exampleA) 0)) (Str ''counter'') (Num 1)"
    using exampleA_refused(1) by (simp add: exampleA_inactive)
  show ?thesis
    using h r inactive_write_changes_nothing [OF h, of "Str ''counter''" "Num 1"]
    by (simp add: exampleA_inactive exampleA_instance)
qed

text \<open>
  The claim as stated fails. The real window of the example owns the read-only,
  non-configurable \<^verbatim>\<open>NaN\<close>, and line 88 copies it into the overlay. After
  \<^verbatim>\<open>inactive()\<close> the trap answers \<^verbatim>\<open>proxy.NaN = 1\<close> with \<^verbatim>\<open>true\<close> (line 224), and the
  \<^verbatim>\<open>Proxy\<close> of line 207, which finds the target's \<^verbatim>\<open>NaN\<close> read-only and different,
  raises \<^verbatim>\<open>TypeError\<close>.
\<close>

theorem inactive_write_counterexample:
  "\<not> sandboxRunning (instances (inactive 0 exampleA) 0) \<and>
   fst (proxy_set 0 (Str ''NaN'') (Num 1) (inactive 0 exampleA)) = Inr True \<and>
   fst (handle_set 0 (Str ''NaN'') (Num 1) (inactive 0 exampleA)) = Inl TypeError"
proof -
  have h: "\<not> sandboxRunning (instances (inactive 0 exampleA) 0)"
    by (simp add: exampleA_inactive)
  have r: "setRefused (fakeWindow (instances (inactive 0 exampleA) 0)) (Str ''NaN'') (Num 1)"
    using exampleA_refused(2) by (simp add: exampleA_inactive)
  show ?thesis using h r by (simp add: handle_set_def proxy_set_def)
qed

subsection \<open>The self-reference names\<close>



subsection \<open>Keys absent from the window and from the overlay\<close>

lemma absent_has:
  assumes "\<not> rawWindow_in (host w) p" and "\<not> target_in (host w) (fakeWindow (instances w i)) p"
  shows "proxy_has i p w = (p \<in> set (map Str unscopables))"
  using assms by (simp add: proxy_has_def inUnscopables_def target_in_def js_in_def)

lemma absent_get:
  assumes "\<not> rawWindow_in (host w) p" and "\<not> target_in (host w) (fakeWindow (instances w i)) p"
    and "\<not> reserved (nodeEnv w) p"
  shows "proxy_get i p w = (Inr Undefined, w)"
proof -
  have r: "p \<noteq> SymbolUnscopables" "\<not> isSelfReference (nodeEnv w) p"
    "p \<noteq> Str ''hasOwnProperty''" "p \<noteq> Str ''document''"
    using assms(3) by (simp_all add: reserved_def)
  show ?thesis
    by (simp add: proxy_get_def r rawWindow_absent [OF assms(1)] target_absent [OF assms(2)]
        getTargetValue_def)
qed

text \<open>
  C3, as amended. For every key absent from both the real window and the overlay (in
  the sense of \<^verbatim>\<open>in\<close>, which looks through the prototype chain): \<^verbatim>\<open>has\<close> is true
  exactly when the key is one of the eleven names of the table \<^verbatim>\<open>unscopables\<close>, and
  is false otherwise; and unless the key is one the \<^verbatim>\<open>get\<close> trap answers by itself
  (\<^verbatim>\<open>Symbol.unscopables\<close>, a self-reference name, \<^verbatim>\<open>hasOwnProperty\<close>,
  \<^verbatim>\<open>document\<close>), reading it gives \<^verbatim>\<open>undefined\<close> and changes nothing.
\<close>

theorem absent_key_unless_reserved:
  assumes "\<not> rawWindow_in (host w) p"
    and "\<not> target_in (host w) (fakeWindow (instances w i)) p"
  shows "proxy_has i p w = (p \<in> set (map Str unscopables)) \<and>
         (\<not> reserved (nodeEnv w) p \<longrightarrow> proxy_get i p w = (Inr Undefined, w))"
  using absent_has [OF assms] absent_get [OF assms] by blast

lemma exampleA_absent:
  "\<not> rawWindow_in (host exampleA) SymbolUnscopables"
  "\<not> target_in (host exampleA) (fakeWindow (instances exampleA 0)) SymbolUnscopables"
  "\<not> rawWindow_in (host exampleA) (Str ''Float32Array'')"
  "\<not> target_in (host exampleA) (fakeWindow (instances exampleA 0)) (Str ''Float32Array'')"
  "\<not> rawWindow_in (host exampleA) (Str ''counter'')"
  "\<not> target_in (host exampleA) (fakeWindow (instances exampleA 0)) (Str ''counter'')"
  by (simp_all add: exampleA_instance exampleA_world exampleHost_def rawWindow_in_def
      target_in_def js_in_def owns_def)

text \<open>
  The claim as stated fails: in the example neither the real window nor the overlay has
  \<^verbatim>\<open>Symbol.unscopables\<close> or \<^verbatim>\<open>Float32Array\<close>, yet reading the first gives the table
  \<^verbatim>\<open>unscopables\<close> (line 228) and \<^verbatim>\<open>has\<close> of the second is true (line 262).
\<close>

theorem absent_key_counterexample:
  "\<not> rawWindow_in (host exampleA) SymbolUnscopables \<and>
   \<not> target_in (host exampleA) (fakeWindow (instances exampleA 0)) SymbolUnscopables \<and>
   fst (proxy_get 0 SymbolUnscopables exampleA) = Inr Unscopables \<and>
   \<not> rawWindow_in (host exampleA) (Str ''Float32Array'') \<and>
   \<not> target_in (host exampleA) (fakeWindow (instances exampleA 0)) (Str ''Float32Array'') \<and>
   proxy_has 0 (Str ''Float32Array'') exampleA"
  by (simp add: exampleA_absent proxy_get_def proxy_has_def inUnscopables_def unscopables_def)

theorem absent_key_unless_reserved_witness:
  "\<not> rawWindow_in (host exampleA) (Str ''counter'') \<and>
   \<not> target_in (host exampleA) (fakeWindow (instances exampleA 0)) (Str ''counter'') \<and>
   \<not> reserved (nodeEnv exampleA) (Str ''counter'') \<and>
   \<not> proxy_has 0 (Str ''counter'') exampleA \<and>
   proxy_get 0 (Str ''counter'') exampleA = (Inr Undefined, exampleA)"
proof -
  have r: "\<not> reserved (nodeEnv exampleA) (Str ''counter'')"
    by (simp add: reserved_def isSelfReference_def)
  have u: "Str ''counter'' \<notin> set (map Str unscopables)"
    by (simp add: unscopables_def)
  show ?thesis
    using absent_key_unless_reserved [OF exampleA_absent(5,6)] r u
    by (simp add: exampleA_absent)
qed

subsection \<open>Writing, then reading\<close>

text \<open>
  The world after a write the overlay stores, and the last line of the \<^verbatim>\<open>get\<close> trap in
  it: for a key that is neither getter-backed nor answered by the trap itself, the read
  is \<^verbatim>\<open>target[p] || rawWindow[p]\<close>, passed through \<^verbatim>\<open>getTargetValue\<close>.
\<close>

lemma stored_write:
  assumes "sandboxRunning (instances w i)"
    and "storable (host w) (fakeWindow (instances w i)) p"
  obtains w' where "proxy_set i p v w = (Inr True, w')"
    and "handle_set i p v w = (Inr True, w')"
    and "target_get (host w') (fakeWindow (instances w' i)) p = v"
    and "owns (fakeWindow (instances w' i)) p"
    and "\<And>x. \<not> getRefused (fakeWindow (instances w' i)) p x"
    and "p \<in> updatedValueSet (instances w' i)"
    and "sameHost w w'" and "host w' = host w"
    and "propertiesWithGetter (instances w' i) = propertiesWithGetter (instances w i)"
    and "\<And>j. j \<noteq> i \<Longrightarrow> instances w' j = instances w j"
proof -
  obtain t e c where t:
    "proxy_set i p v w =
       (Inr True,
        w\<lparr>instances := (instances w)(i := (instances w i)
              \<lparr>fakeWindow := t, updatedValueSet := insert p (updatedValueSet (instances w i))\<rparr>),
          systemJsCalls := systemJsCalls w @ [InterceptSystemJsProps p v]\<rparr>)"
    "map_of t p = Some (Data v True e c)"
    by (rule proxy_set_storable [OF assms]) blast
  note sv = stored_value [OF t(2)]
  show ?thesis
  proof (rule that [OF t(1)])
    show "handle_set i p v w =
       (Inr True,
        w\<lparr>instances := (instances w)(i := (instances w i)
              \<lparr>fakeWindow := t, updatedValueSet := insert p (updatedValueSet (instances w i))\<rparr>),
          systemJsCalls := systemJsCalls w @ [InterceptSystemJsProps p v]\<rparr>)"
      by (simp add: handle_set_def t(1) sv(3))
  qed (simp_all add: sameHost_def target_get_def sv)
qed

lemma read_after_stored_write:
  assumes "target_get (host w) (fakeWindow (instances w i)) p = v"
    and "p \<notin> propertiesWithGetter (instances w i)"
    and "\<not> reserved (nodeEnv w) p"
  shows "proxy_get i p w =
           (Inr (getTargetValue RawWindow (if truthy v then v else rawWindow_get (host w) p)), w)"
proof -
  have r: "p \<noteq> SymbolUnscopables" "\<not> isSelfReference (nodeEnv w) p"
    "p \<noteq> Str ''hasOwnProperty''" "p \<noteq> Str ''document''"
    using assms(3) by (simp_all add: reserved_def)
  show ?thesis using assms(1,2) by (simp add: proxy_get_def r)
qed


lemma getTargetValue_cases:
  "getTargetValue RawWindow (Fn f) = Bound (Fn f) RawWindow"
  "\<not> isCallable v \<Longrightarrow> getTargetValue RawWindow v = v"
  by (simp_all add: getTargetValue_def)

text \<open>
  C1. What the code does with a falsy value. Take a running instance, a key that is
  neither getter-backed nor reserved and that the overlay stores, and a falsy value
  \<open>v\<close> (\<^verbatim>\<open>0\<close>, \<^verbatim>\<open>''\<close>, \<^verbatim>\<open>false\<close>, \<^verbatim>\<open>null\<close>, \<^verbatim>\<open>undefined\<close>, \<^verbatim>\<open>NaN\<close>). The write through
  the handle reports success and the overlay then owns the key with the value \<open>v\<close>, as
  the \<^verbatim>\<open>has\<close> trap confirms. The read through the handle nevertheless returns what
  the real window yields for the key: line 255 reads \<^verbatim>\<open>target[p] || rawWindow[p]\<close>,
  and \<^verbatim>\<open>||\<close> takes the stored falsy value for a missing one. The claim expects \<open>v\<close>.
\<close>

theorem falsy_write_reads_window:
  assumes "sandboxRunning (instances w i)"
    and "storable (host w) (fakeWindow (instances w i)) p"
    and "p \<notin> propertiesWithGetter (instances w i)"
    and "\<not> reserved (nodeEnv w) p"
    and "\<not> truthy v"
  shows "\<exists>w'. handle_set i p v w = (Inr True, w') \<and>
           target_get (host w') (fakeWindow (instances w' i)) p = v \<and>
           owns (fakeWindow (instances w' i)) p \<and>
           proxy_has i p w' \<and>
           handle_get i p w' =
             (Inr (getTargetValue RawWindow (rawWindow_get (host w) p)), w')"
proof -
  obtain w' where w': "handle_set i p v w = (Inr True, w')"
    "target_get (host w') (fakeWindow (instances w' i)) p = v"
    "owns (fakeWindow (instances w' i)) p"
    "\<And>x. \<not> getRefused (fakeWindow (instances w' i)) p x"
    "sameHost w w'" "host w' = host w"
    "propertiesWithGetter (instances w' i) = propertiesWithGetter (instances w i)"
    by (rule stored_write [OF assms(1,2), of v]) blast
  have e: "nodeEnv w' = nodeEnv w" using w'(5) by (simp add: sameHost_def)
  have g: "proxy_get i p w' = (Inr (getTargetValue RawWindow (rawWindow_get (host w) p)), w')"
    using read_after_stored_write [OF w'(2)] assms(3,4,5) by (simp add: w'(6,7) e)
  have has: "proxy_has i p w'"
    using w'(3) by (simp add: proxy_has_def target_in_def js_in_def)
  show ?thesis
    using w'(1,2,3) has by (simp add: handle_get_def g w'(4))
qed

lemma exampleA_version:
  "sandboxRunning (instances exampleA 0)"
  "storable (host exampleA) (fakeWindow (instances exampleA 0)) (Str ''version'')"
  "Str ''version'' \<notin> propertiesWithGetter (instances exampleA 0)"
  "\<not> reserved (nodeEnv exampleA) (Str ''version'')"
  "rawWindow_get (host exampleA) (Str ''version'') = Num 5"
  by (simp_all add: exampleA_instance exampleA_world storable_def reserved_def
      isSelfReference_def exampleHost_def rawWindow_get_def js_get_def)

text \<open>The real window of the example owns \<^verbatim>\<open>version\<close> with the value 5: after
  \<^verbatim>\<open>proxy.version = 0\<close> the overlay holds 0 and \<^verbatim>\<open>proxy.version\<close> is 5.\<close>

theorem falsy_write_reads_window_witness:
  "sandboxRunning (instances exampleA 0) \<and>
   storable (host exampleA) (fakeWindow (instances exampleA 0)) (Str ''version'') \<and>
   Str ''version'' \<notin> propertiesWithGetter (instances exampleA 0) \<and>
   \<not> reserved (nodeEnv exampleA) (Str ''version'') \<and>
   \<not> truthy (Num 0) \<and>
   (\<exists>w'. handle_set 0 (Str ''version'') (Num 0) exampleA = (Inr True, w') \<and>
         target_get (host w') (fakeWindow (instances w' 0)) (Str ''version'') = Num 0 \<and>
         owns (fakeWindow (instances w' 0)) (Str ''version'') \<and>
         proxy_has 0 (Str ''version'') w' \<and>
         handle_get 0 (Str ''version'') w' = (Inr (Num 5), w'))"
proof -
  have f: "\<not> truthy (Num 0)" by simp
  show ?thesis
    using falsy_write_reads_window [OF exampleA_version(1,2,3,4) f] exampleA_version f
    by (simp add: getTargetValue_def)
qed

text \<open>The same write with a truthy value is read back: the defect is the falsy case.\<close>

lemma truthy_write_reads_back:
  "\<exists>w'. handle_set 0 (Str ''version'') (Num 7) exampleA = (Inr True, w') \<and>
        handle_get 0 (Str ''version'') w' = (Inr (Num 7), w')"
proof -
  obtain w' where w': "handle_set 0 (Str ''version'') (Num 7) exampleA = (Inr True, w')"
    "target_get (host w') (fakeWindow (instances w' 0)) (Str ''version'') = Num 7"
    "\<And>x. \<not> getRefused (fakeWindow (instances w' 0)) (Str ''version'') x"
    "sameHost exampleA w'"
    "propertiesWithGetter (instances w' 0) = propertiesWithGetter (instances exampleA 0)"
    by (rule stored_write [OF exampleA_version(1,2), of "Num 7"]) blast
  have e: "nodeEnv w' = nodeEnv exampleA" using w'(4) by (simp add: sameHost_def)
  have "proxy_get 0 (Str ''version'') w' = (Inr (Num 7), w')"
    using read_after_stored_write [OF w'(2)] exampleA_version(3,4)
    by (simp add: w'(5) e getTargetValue_def)
  then show ?thesis using w'(1) by (auto simp: handle_get_def w'(3))
qed

subsection \<open>A fresh instance\<close>



text \<open>
  C10, as amended. Right after \<^verbatim>\<open>new ProxySandbox(name)\<close> the instance is running
  (\<^verbatim>\<open>sandboxRunning\<close> is true before any call of \<^verbatim>\<open>active\<close>). Hence the first
  \<^verbatim>\<open>active()\<close> changes nothing, so \<^verbatim>\<open>activeSandboxCount\<close> is what it was before the
  construction. And without \<^verbatim>\<open>active\<close> ever having been called, a write through the
  handle of a key the overlay stores (a writable data property of the overlay, or a key
  absent from it other than the inherited \<^verbatim>\<open>__proto__\<close>) reports success, leaves the
  value in the overlay under that key and puts the key into \<^verbatim>\<open>updatedValueSet\<close>;
  and every write through the handle that reports success has put its key into
  \<^verbatim>\<open>updatedValueSet\<close>.
\<close>

theorem fresh_instance_runs_and_records:
  assumes "construct nm w = (i, w')"
  shows "sandboxRunning (instances w' i) \<and>
         active i w' = w' \<and>
         activeSandboxCount (active i w') = activeSandboxCount w \<and>
         (\<forall>p v. storable (host w') (fakeWindow (instances w' i)) p \<longrightarrow>
            (\<exists>w''. handle_set i p v w' = (Inr True, w'') \<and>
                   p \<in> updatedValueSet (instances w'' i) \<and>
                   owns (fakeWindow (instances w'' i)) p \<and>
                   target_get (host w'') (fakeWindow (instances w'' i)) p = v)) \<and>
         (\<forall>p v. fst (handle_set i p v w') = Inr True \<longrightarrow>
            p \<in> updatedValueSet (instances (snd (handle_set i p v w')) i))"
proof -
  note f = construct_fresh [OF assms]
  have run: "sandboxRunning (instances w' i)" by (simp add: f(2))
  have "(instances w')(i := (instances w' i)\<lparr>sandboxRunning := True\<rparr>) = instances w'"
    by (rule ext) (simp add: run)
  then have same: "active i w' = w'"
    by (simp add: active_def Let_def run)
  have stores: "\<exists>w''. handle_set i p v w' = (Inr True, w'') \<and>
      p \<in> updatedValueSet (instances w'' i) \<and>
      owns (fakeWindow (instances w'' i)) p \<and>
      target_get (host w'') (fakeWindow (instances w'' i)) p = v"
    if st: "storable (host w') (fakeWindow (instances w' i)) p" for p v
  proof -
    obtain w'' where "handle_set i p v w' = (Inr True, w'')"
      "target_get (host w'') (fakeWindow (instances w'' i)) p = v"
      "owns (fakeWindow (instances w'' i)) p"
      "p \<in> updatedValueSet (instances w'' i)"
      by (rule stored_write [OF run st, of v]) blast
    then show ?thesis by blast
  qed
  have recorded: "p \<in> updatedValueSet (instances (snd (handle_set i p v w')) i)"
    if ok: "fst (handle_set i p v w') = Inr True" for p v
  proof -
    obtain r w1 where a: "strictAssign (fakeWindow (instances w' i)) p v w' = (r, w1)"
      by (cases "strictAssign (fakeWindow (instances w' i)) p v w'")
    show ?thesis
    proof (cases r)
      case (Inl e)
      then show ?thesis using ok by (simp add: handle_set_def proxy_set_def run a)
    next
      case (Inr t)
      then show ?thesis
        by (simp add: handle_set_def proxy_set_def run a)
    qed
  qed
  show ?thesis using run same f(7) stores recorded by simp
qed

lemma exampleA_construct: "construct ''A'' exampleWorld = (0, exampleA)"
  by (simp add: exampleA_def construct_def Let_def exampleWorld_def split: prod.splits)

theorem fresh_instance_runs_and_records_witness:
  "construct ''A'' exampleWorld = (0, exampleA) \<and>
   sandboxRunning (instances exampleA 0) \<and>
   active 0 exampleA = exampleA \<and>
   activeSandboxCount (active 0 exampleA) = 0 \<and>
   storable (host exampleA) (fakeWindow (instances exampleA 0)) (Str ''version'') \<and>
   (\<exists>w''. handle_set 0 (Str ''version'') (Num 7) exampleA = (Inr True, w'') \<and>
          Str ''version'' \<in> updatedValueSet (instances w'' 0) \<and>
          owns (fakeWindow (instances w'' 0)) (Str ''version'') \<and>
          target_get (host w'') (fakeWindow (instances w'' 0)) (Str ''version'') = Num 7) \<and>
   fst (handle_set 0 (Str ''version'') (Num 7) exampleA) = Inr True \<and>
   Str ''version'' \<in>
     updatedValueSet (instances (snd (handle_set 0 (Str ''version'') (Num 7) exampleA)) 0)"
proof -
  note t = fresh_instance_runs_and_records [OF exampleA_construct]
  have "active 0 exampleA = exampleA" using t by blast
  then have c: "activeSandboxCount (active 0 exampleA) = 0"
    by (simp add: exampleA_world(3))
  have a: "\<exists>w''. handle_set 0 (Str ''version'') (Num 7) exampleA = (Inr True, w'') \<and>
          Str ''version'' \<in> updatedValueSet (instances w'' 0) \<and>
          owns (fakeWindow (instances w'' 0)) (Str ''version'') \<and>
          target_get (host w'') (fakeWindow (instances w'' 0)) (Str ''version'') = Num 7"
    using t exampleA_version(2) by blast
  then have b: "fst (handle_set 0 (Str ''version'') (Num 7) exampleA) = Inr True"
    by auto
  have d: "Str ''version'' \<in>
     updatedValueSet (instances (snd (handle_set 0 (Str ''version'') (Num 7) exampleA)) 0)"
    using t b by blast
  show ?thesis
    using exampleA_construct t c exampleA_version(2) a b d by blast
qed

text \<open>
  The claim as stated fails for the keys the overlay holds read-only. The real window
  of the example owns the read-only, non-configurable \<^verbatim>\<open>NaN\<close>; the constructor copies it
  into the overlay (line 88); on the new running instance \<^verbatim>\<open>proxy.NaN = 1\<close> raises
  \<^verbatim>\<open>TypeError\<close> at the strict assignment of line 211, before line 212 records the key.
\<close>

theorem fresh_instance_write_counterexample:
  "construct ''A'' exampleWorld = (0, exampleA) \<and>
   sandboxRunning (instances exampleA 0) \<and>
   handle_set 0 (Str ''NaN'') (Num 1) exampleA = (Inl TypeError, exampleA) \<and>
   Str ''NaN'' \<notin> updatedValueSet (instances exampleA 0)"
  using exampleA_construct
  by (simp add: handle_set_def proxy_set_def strictAssign_def js_assign_def exampleA_instance)

subsection \<open>Two instances over one window\<close>


lemma exampleAB_construct: "construct ''B'' exampleA = (1, exampleAB)"
proof -
  have "allocated exampleA = 1"
    using construct_fresh(9) [OF exampleA_construct] by (simp add: exampleWorld_def)
  then show ?thesis
    by (simp add: exampleAB_def construct_def Let_def split: prod.splits)
qed


subsection \<open>Getter-backed keys\<close>

lemma strictAssign_keeps:
  "nodeEnv (snd (strictAssign t p v w)) = nodeEnv w"
  "instances (snd (strictAssign t p v w)) = instances w"
  by (simp_all add: strictAssign_def split: assignment.splits prod.splits option.splits)

lemma proxy_set_keeps:
  "nodeEnv (snd (proxy_set i p v w)) = nodeEnv w"
  "propertiesWithGetter (instances (snd (proxy_set i p v w)) i) =
     propertiesWithGetter (instances w i)"
proof -
  obtain r w1 where a: "strictAssign (fakeWindow (instances w i)) p v w = (r, w1)"
    by (cases "strictAssign (fakeWindow (instances w i)) p v w")
  have k: "nodeEnv w1 = nodeEnv w" "instances w1 = instances w"
    using strictAssign_keeps [of "fakeWindow (instances w i)" p v w] a by simp_all
  show "nodeEnv (snd (proxy_set i p v w)) = nodeEnv w"
    by (cases r) (simp_all add: proxy_set_def a k)
  show "propertiesWithGetter (instances (snd (proxy_set i p v w)) i) =
     propertiesWithGetter (instances w i)"
    by (cases r) (simp_all add: proxy_set_def a k)
qed

text \<open>
  C6, as amended. For every key in \<^verbatim>\<open>propertiesWithGetter\<close> that is not one the
  \<^verbatim>\<open>get\<close> trap answers by itself (a self-reference name, \<^verbatim>\<open>hasOwnProperty\<close>,
  \<^verbatim>\<open>document\<close>): after a write of any value through the handle, whatever the write
  did, the read returns what the real window yields for the key at that moment
  (rebound to the real window when it is a function), not the value written.
\<close>

theorem getter_backed_read_is_live:
  assumes "p \<in> propertiesWithGetter (instances w i)"
    and "\<not> reserved (nodeEnv w) p"
    and "proxy_set i p v w = (r, w')"
  shows "proxy_get i p w' =
           (Inr (getTargetValue RawWindow (rawWindow_get (host w') p)), w')"
proof -
  have w': "w' = snd (proxy_set i p v w)" using assms(3) by simp
  have g: "p \<in> propertiesWithGetter (instances w' i)"
    and e: "nodeEnv w' = nodeEnv w"
    using assms(1) by (simp_all add: w' proxy_set_keeps)
  have r: "p \<noteq> SymbolUnscopables" "\<not> isSelfReference (nodeEnv w) p"
    "p \<noteq> Str ''hasOwnProperty''" "p \<noteq> Str ''document''"
    using assms(2) by (simp_all add: reserved_def)
  show ?thesis by (simp add: proxy_get_def r g e)
qed

text \<open>In the example \<^verbatim>\<open>mockSafariTop\<close> is such a key outside the test environment: its
  setter accepts the write, and the read still gives the real window's value.\<close>

lemma exampleA_mockSafariTop:
  "proxy_set 0 (Str ''mockSafariTop'') (Num 1) exampleA =
     (Inr True,
      exampleA\<lparr>instances := (instances exampleA)(0 := (instances exampleA 0)
                 \<lparr>updatedValueSet := {Str ''mockSafariTop''}\<rparr>),
               systemJsCalls := [InterceptSystemJsProps (Str ''mockSafariTop'') (Num 1)]\<rparr>)"
  by (simp add: proxy_set_def strictAssign_def js_assign_def exampleA_instance exampleA_world)

theorem getter_backed_read_is_live_witness:
  "Str ''mockSafariTop'' \<in> propertiesWithGetter (instances exampleA 0) \<and>
   \<not> reserved (nodeEnv exampleA) (Str ''mockSafariTop'') \<and>
   sandboxRunning (instances exampleA 0) \<and>
   fst (proxy_set 0 (Str ''mockSafariTop'') (Num 1) exampleA) = Inr True \<and>
   rawWindow_get (host (snd (proxy_set 0 (Str ''mockSafariTop'') (Num 1) exampleA)))
     (Str ''mockSafariTop'') = RawWindow \<and>
   fst (proxy_get 0 (Str ''mockSafariTop'')
          (snd (proxy_set 0 (Str ''mockSafariTop'') (Num 1) exampleA))) = Inr RawWindow"
proof -
  have g: "Str ''mockSafariTop'' \<in> propertiesWithGetter (instances exampleA 0)"
    by (simp add: exampleA_instance)
  have r: "\<not> reserved (nodeEnv exampleA) (Str ''mockSafariTop'')"
    by (simp add: exampleA_world reserved_def isSelfReference_def)
  have live: "rawWindow_get exampleHost (Str ''mockSafariTop'') = RawWindow"
    by (simp add: exampleHost_def rawWindow_get_def js_get_def)
  show ?thesis
    using getter_backed_read_is_live [OF g r exampleA_mockSafariTop] g r live
    by (simp add: exampleA_mockSafariTop exampleA_instance exampleA_world getTargetValue_def)
qed

lemma exampleTest_instance:
  "instances exampleTest 0 =
     \<lparr>name = ''A'', sandboxRunning = True, updatedValueSet = {},
      fakeWindow =
        [(Str ''window'', Accessor (Some 1) None True True),
         (Str ''top'', Accessor (Some 1) None True True),
         (Str ''document'', Accessor (Some 2) None True False),
         (Str ''location'', Accessor (Some 3) (Some 4) True False),
         (Str ''NaN'', Data NaN False False False),
         (Str ''mockSafariTop'', Accessor (Some 1) (Some 5) False True)],
      propertiesWithGetter =
        {Str ''window'', Str ''top'', Str ''document'', Str ''location'', Str ''mockSafariTop''},
      fakeDocument = []\<rparr>"
  apply (simp add: exampleTest_def construct_def exampleWorld_def)
  apply (simp add: exampleHost_def)
  apply (simp add: createFakeWindow_def nonConfigurable_def)
  apply (simp add: isSelfReference_def)
  done

lemma exampleTest_world:
  "host exampleTest = exampleHost" "nodeEnv exampleTest = ''test''"
  "setterEffect exampleTest = (\<lambda>f v h. if f = 4 then (Some TypeError, h) else (None, h))"
  by (simp_all add: exampleTest_def exampleWorld_def construct_def Let_def split: prod.splits)

lemma exampleTest_mockSafariTop:
  "proxy_set 0 (Str ''mockSafariTop'') (Num 1) exampleTest =
     (Inr True,
      exampleTest\<lparr>instances := (instances exampleTest)(0 := (instances exampleTest 0)
                 \<lparr>updatedValueSet := {Str ''mockSafariTop''}\<rparr>),
               systemJsCalls := systemJsCalls exampleTest @
                 [InterceptSystemJsProps (Str ''mockSafariTop'') (Num 1)]\<rparr>)"
  by (simp add: proxy_set_def strictAssign_def js_assign_def exampleTest_instance exampleTest_world)

text \<open>
  The claim as stated fails on a getter-backed key that is also a self-reference name.
  Under \<^verbatim>\<open>NODE_ENV = 'test'\<close> the key \<^verbatim>\<open>mockSafariTop\<close> is one (lines 70 and 238): the
  write reports success, the real window's getter yields the real window, and the read
  returns the instance's own proxy.
\<close>

theorem getter_backed_read_counterexample:
  "Str ''mockSafariTop'' \<in> propertiesWithGetter (instances exampleTest 0) \<and>
   sandboxRunning (instances exampleTest 0) \<and>
   fst (proxy_set 0 (Str ''mockSafariTop'') (Num 1) exampleTest) = Inr True \<and>
   rawWindow_get (host (snd (proxy_set 0 (Str ''mockSafariTop'') (Num 1) exampleTest)))
     (Str ''mockSafariTop'') = RawWindow \<and>
   fst (proxy_get 0 (Str ''mockSafariTop'')
          (snd (proxy_set 0 (Str ''mockSafariTop'') (Num 1) exampleTest))) = Inr (WindowProxy 0)"
proof -
  have live: "rawWindow_get exampleHost (Str ''mockSafariTop'') = RawWindow"
    by (simp add: exampleHost_def rawWindow_get_def js_get_def)
  show ?thesis
    by (simp add: exampleTest_mockSafariTop exampleTest_instance exampleTest_world live
        proxy_get_def isSelfReference_def)
qed

text \<open>The same outside the test environment for \<^verbatim>\<open>top\<close>, which browsers define as a
  non-configurable accessor without a setter: the strict assignment raises
  \<^verbatim>\<open>TypeError\<close>, and the read returns the proxy.\<close>

lemma getter_backed_top_in_production:
  "Str ''top'' \<in> propertiesWithGetter (instances exampleA 0) \<and>
   proxy_set 0 (Str ''top'') (Num 1) exampleA = (Inl TypeError, exampleA) \<and>
   rawWindow_get (host exampleA) (Str ''top'') = RawWindow \<and>
   fst (proxy_get 0 (Str ''top'') exampleA) = Inr (WindowProxy 0)"
  by (simp add: exampleA_instance exampleA_world exampleHost_def rawWindow_get_def js_get_def
      proxy_set_def strictAssign_def js_assign_def proxy_get_def isSelfReference_def)

subsection \<open>Deleting through the handle\<close>

lemma js_delete_deletable:
  assumes "deletable obj p"
  obtains t where "js_delete obj p = Some t" and "\<not> owns t p"
    and "\<And>q. q \<noteq> p \<Longrightarrow> map_of t q = map_of obj q"
    and "\<not> owns obj p \<Longrightarrow> t = obj"
proof (cases "map_of obj p")
  case None
  then have "\<not> owns obj p" by (simp add: owns_def map_of_eq_None_iff)
  then show ?thesis using None that [of obj] by (simp add: js_delete_def)
next
  case (Some d)
  then have o: "owns obj p" by (rule map_of_owns)
  have "configurable d" using assms Some by (simp add: deletable_def)
  then have "js_delete obj p = Some (AList.delete p obj)"
    using Some by (simp add: js_delete_def)
  moreover have "\<not> owns (AList.delete p obj) p"
    by (simp add: owns_def delete_keys)
  moreover have "map_of (AList.delete p obj) q = map_of obj q" if "q \<noteq> p" for q
    using that by (simp add: delete_conv')
  ultimately show ?thesis using that o by blast
qed

lemma js_delete_owned:
  assumes "owns obj p" and "deletable obj p"
  shows "js_delete obj p = Some (AList.delete p obj)"
    and "\<not> owns (AList.delete p obj) p"
    and "\<not> deleteRefused (AList.delete p obj) p"
    and "\<And>q. q \<noteq> p \<Longrightarrow> map_of (AList.delete p obj) q = map_of obj q"
proof -
  obtain d where d: "map_of obj p = Some d"
    using assms(1) by (cases "map_of obj p") (auto simp: owns_def map_of_eq_None_iff)
  then have "configurable d" using assms(2) by (simp add: deletable_def)
  then show "js_delete obj p = Some (AList.delete p obj)"
    using d by (simp add: js_delete_def)
  show n: "\<not> owns (AList.delete p obj) p"
    by (simp add: owns_def delete_keys)
  show "\<not> deleteRefused (AList.delete p obj) p"
    using not_owns_map_of [OF n] by (simp add: deleteRefused_def)
  show "map_of (AList.delete p obj) q = map_of obj q" if "q \<noteq> p" for q
    using that by (simp add: delete_conv')
qed

lemma js_delete_refused:
  assumes "\<not> deletable obj p"
  shows "js_delete obj p = None" and "owns obj p"
  using assms
  by (auto simp: deletable_def js_delete_def owns_def split: option.splits
      dest: map_of_SomeD intro: rev_image_eqI)

lemma callHasOwnProperty_builtin:
  assumes "builtinHasOwnProperty (host w) target"
  shows "callHasOwnProperty target p w = (Inr (owns target p), w)"
  using assms by (simp add: callHasOwnProperty_def builtinHasOwnProperty_def)

lemma callHasOwnProperty_not_a_function:
  assumes "\<not> isCallable (target_get (host w) target (Str ''hasOwnProperty''))"
  shows "callHasOwnProperty target p w = (Inl TypeError, w)"
proof -
  have "target_get (host w) target (Str ''hasOwnProperty'') \<noteq> ObjectHasOwnProperty"
    using assms by auto
  then show ?thesis using assms by (simp add: callHasOwnProperty_def)
qed

text \<open>
  C8, as amended. Let the overlay's \<^verbatim>\<open>hasOwnProperty\<close> be the built-in method. Then a
  delete through the handle
  \<^item> of a key the overlay does not own reports success and leaves the world as it was;
  \<^item> of a key the overlay owns as a configurable property reports success, removes the
    key from the overlay and from \<^verbatim>\<open>updatedValueSet\<close>, and changes nothing else (every
    other key of the overlay keeps its descriptor);
  \<^item> of a key the overlay owns as a non-configurable property (a copy the snapshot made
    and did not relax) raises \<^verbatim>\<open>TypeError\<close> and changes nothing.

  When hosted code has written a value that is not a function to the key
  \<^verbatim>\<open>hasOwnProperty\<close>, the call at line 306 fails: every delete raises \<^verbatim>\<open>TypeError\<close> and
  changes nothing.
\<close>

theorem delete_through_handle:
  "(builtinHasOwnProperty (host w) (fakeWindow (instances w i)) \<and>
    \<not> owns (fakeWindow (instances w i)) p \<longrightarrow>
      handle_deleteProperty i p w = (Inr True, w)) \<and>
   (builtinHasOwnProperty (host w) (fakeWindow (instances w i)) \<and>
    owns (fakeWindow (instances w i)) p \<and> deletable (fakeWindow (instances w i)) p \<longrightarrow>
      handle_deleteProperty i p w =
        (Inr True,
         w\<lparr>instances := (instances w)(i := (instances w i)
              \<lparr>fakeWindow := AList.delete p (fakeWindow (instances w i)),
               updatedValueSet := updatedValueSet (instances w i) - {p}\<rparr>)\<rparr>) \<and>
      \<not> owns (AList.delete p (fakeWindow (instances w i))) p \<and>
      (\<forall>q. q \<noteq> p \<longrightarrow>
         map_of (AList.delete p (fakeWindow (instances w i))) q =
         map_of (fakeWindow (instances w i)) q)) \<and>
   (builtinHasOwnProperty (host w) (fakeWindow (instances w i)) \<and>
    \<not> deletable (fakeWindow (instances w i)) p \<longrightarrow>
      handle_deleteProperty i p w = (Inl TypeError, w)) \<and>
   (\<not> isCallable (target_get (host w) (fakeWindow (instances w i)) (Str ''hasOwnProperty'')) \<longrightarrow>
      handle_deleteProperty i p w = (Inl TypeError, w))"
proof (intro conjI impI)
  assume a: "builtinHasOwnProperty (host w) (fakeWindow (instances w i)) \<and>
    \<not> owns (fakeWindow (instances w i)) p"
  then have "deleteRefused (fakeWindow (instances w i)) p = False"
    by (simp add: deleteRefused_def not_owns_map_of)
  then show "handle_deleteProperty i p w = (Inr True, w)"
    using a by (simp add: handle_deleteProperty_def proxy_deleteProperty_def
        callHasOwnProperty_builtin)
next
  assume a: "builtinHasOwnProperty (host w) (fakeWindow (instances w i)) \<and>
    owns (fakeWindow (instances w i)) p \<and> deletable (fakeWindow (instances w i)) p"
  then have o: "owns (fakeWindow (instances w i)) p"
    and d: "deletable (fakeWindow (instances w i)) p"
    and b: "builtinHasOwnProperty (host w) (fakeWindow (instances w i))" by blast+
  note j = js_delete_owned [OF o d]
  show "handle_deleteProperty i p w =
        (Inr True,
         w\<lparr>instances := (instances w)(i := (instances w i)
              \<lparr>fakeWindow := AList.delete p (fakeWindow (instances w i)),
               updatedValueSet := updatedValueSet (instances w i) - {p}\<rparr>)\<rparr>)"
    using o by (simp add: handle_deleteProperty_def proxy_deleteProperty_def
        callHasOwnProperty_builtin [OF b] j(1) j(3))
  show "\<not> owns (AList.delete p (fakeWindow (instances w i))) p" by (rule j(2))
  show "\<forall>q. q \<noteq> p \<longrightarrow>
         map_of (AList.delete p (fakeWindow (instances w i))) q =
         map_of (fakeWindow (instances w i)) q"
    using j(4) by blast
next
  assume a: "builtinHasOwnProperty (host w) (fakeWindow (instances w i)) \<and>
    \<not> deletable (fakeWindow (instances w i)) p"
  then show "handle_deleteProperty i p w = (Inl TypeError, w)"
    using js_delete_refused [of "fakeWindow (instances w i)" p]
    by (simp add: handle_deleteProperty_def proxy_deleteProperty_def
        callHasOwnProperty_builtin)
next
  assume "\<not> isCallable (target_get (host w) (fakeWindow (instances w i)) (Str ''hasOwnProperty''))"
  then show "handle_deleteProperty i p w = (Inl TypeError, w)"
    by (simp add: handle_deleteProperty_def proxy_deleteProperty_def
        callHasOwnProperty_not_a_function)
qed

text \<open>The example, after \<^verbatim>\<open>proxy.version = 7\<close> and after \<^verbatim>\<open>proxy.hasOwnProperty = 1\<close>.\<close>

lemma exampleA_written:
  "proxy_set 0 (Str ''version'') (Num 7) exampleA =
     (Inr True,
      exampleA\<lparr>instances := (instances exampleA)(0 := (instances exampleA 0)
                 \<lparr>fakeWindow := fakeWindow (instances exampleA 0) @
                    [(Str ''version'', Data (Num 7) True True True)],
                  updatedValueSet := {Str ''version''}\<rparr>),
               systemJsCalls := [InterceptSystemJsProps (Str ''version'') (Num 7)]\<rparr>)"
  by (simp add: proxy_set_def strictAssign_def js_assign_def exampleA_instance exampleA_world)

lemma exampleA_shadowed:
  "handle_set 0 (Str ''hasOwnProperty'') (Num 1) exampleA =
     (Inr True,
      exampleA\<lparr>instances := (instances exampleA)(0 := (instances exampleA 0)
                 \<lparr>fakeWindow := fakeWindow (instances exampleA 0) @
                    [(Str ''hasOwnProperty'', Data (Num 1) True True True)],
                  updatedValueSet := {Str ''hasOwnProperty''}\<rparr>),
               systemJsCalls := [InterceptSystemJsProps (Str ''hasOwnProperty'') (Num 1)]\<rparr>)"
  by (simp add: handle_set_def setRefused_def proxy_set_def strictAssign_def js_assign_def
      exampleA_instance exampleA_world)

lemma exampleA_builtin:
  "builtinHasOwnProperty (host exampleA) (fakeWindow (instances exampleA 0))"
  "builtinHasOwnProperty (host (snd (proxy_set 0 (Str ''version'') (Num 7) exampleA)))
     (fakeWindow (instances (snd (proxy_set 0 (Str ''version'') (Num 7) exampleA)) 0))"
  by (simp_all add: exampleA_written builtinHasOwnProperty_def target_get_def js_get_def
      exampleA_instance exampleA_world exampleHost_def)

theorem delete_through_handle_witness:
  "builtinHasOwnProperty (host exampleA) (fakeWindow (instances exampleA 0)) \<and>
   \<not> owns (fakeWindow (instances exampleA 0)) (Str ''counter'') \<and>
   handle_deleteProperty 0 (Str ''counter'') exampleA = (Inr True, exampleA) \<and>
   \<not> deletable (fakeWindow (instances exampleA 0)) (Str ''NaN'') \<and>
   handle_deleteProperty 0 (Str ''NaN'') exampleA = (Inl TypeError, exampleA) \<and>
   builtinHasOwnProperty (host (snd (proxy_set 0 (Str ''version'') (Num 7) exampleA)))
     (fakeWindow (instances (snd (proxy_set 0 (Str ''version'') (Num 7) exampleA)) 0)) \<and>
   owns (fakeWindow (instances (snd (proxy_set 0 (Str ''version'') (Num 7) exampleA)) 0))
     (Str ''version'') \<and>
   deletable (fakeWindow (instances (snd (proxy_set 0 (Str ''version'') (Num 7) exampleA)) 0))
     (Str ''version'') \<and>
   fst (handle_deleteProperty 0 (Str ''version'')
          (snd (proxy_set 0 (Str ''version'') (Num 7) exampleA))) = Inr True \<and>
   instances (snd (handle_deleteProperty 0 (Str ''version'')
          (snd (proxy_set 0 (Str ''version'') (Num 7) exampleA)))) 0 = instances exampleA 0 \<and>
   \<not> isCallable (target_get (host (snd (handle_set 0 (Str ''hasOwnProperty'') (Num 1) exampleA)))
        (fakeWindow (instances (snd (handle_set 0 (Str ''hasOwnProperty'') (Num 1) exampleA)) 0))
        (Str ''hasOwnProperty'')) \<and>
   fst (handle_deleteProperty 0 (Str ''counter'')
          (snd (handle_set 0 (Str ''hasOwnProperty'') (Num 1) exampleA))) = Inl TypeError"
proof -
  let ?w = "snd (proxy_set 0 (Str ''version'') (Num 7) exampleA)"
  let ?s = "snd (handle_set 0 (Str ''hasOwnProperty'') (Num 1) exampleA)"
  have o1: "owns (fakeWindow (instances ?w 0)) (Str ''version'')"
    and d1: "deletable (fakeWindow (instances ?w 0)) (Str ''version'')"
    by (simp_all add: exampleA_written exampleA_instance deletable_def owns_def)
  have o2: "\<not> owns (fakeWindow (instances exampleA 0)) (Str ''counter'')"
    and d3: "\<not> deletable (fakeWindow (instances exampleA 0)) (Str ''NaN'')"
    by (simp_all add: exampleA_instance deletable_def owns_def)
  have s: "\<not> isCallable (target_get (host ?s) (fakeWindow (instances ?s 0)) (Str ''hasOwnProperty''))"
    by (simp add: exampleA_shadowed target_get_def js_get_def exampleA_instance)
  note t1 = delete_through_handle [of exampleA 0 "Str ''counter''"]
  note t2 = delete_through_handle [of exampleA 0 "Str ''NaN''"]
  note t3 = delete_through_handle [of ?w 0 "Str ''version''"]
  note t4 = delete_through_handle [of ?s 0 "Str ''counter''"]
  have r1: "handle_deleteProperty 0 (Str ''counter'') exampleA = (Inr True, exampleA)"
    using t1 exampleA_builtin(1) o2 by blast
  have r2: "handle_deleteProperty 0 (Str ''NaN'') exampleA = (Inl TypeError, exampleA)"
    using t2 exampleA_builtin(1) d3 by blast
  have r3: "handle_deleteProperty 0 (Str ''version'') ?w =
        (Inr True,
         ?w\<lparr>instances := (instances ?w)(0 := (instances ?w 0)
              \<lparr>fakeWindow := AList.delete (Str ''version'') (fakeWindow (instances ?w 0)),
               updatedValueSet := updatedValueSet (instances ?w 0) - {Str ''version''}\<rparr>)\<rparr>)"
    using t3 exampleA_builtin(2) o1 d1 by blast
  have r3a: "fst (handle_deleteProperty 0 (Str ''version'') ?w) = Inr True"
    and r3b: "instances (snd (handle_deleteProperty 0 (Str ''version'') ?w)) 0 = instances exampleA 0"
  proof -
    have iw: "instances ?w 0 = (instances exampleA 0)
        \<lparr>fakeWindow := fakeWindow (instances exampleA 0) @
           [(Str ''version'', Data (Num 7) True True True)],
         updatedValueSet := {Str ''version''}\<rparr>"
      by (simp add: exampleA_written)
    show "fst (handle_deleteProperty 0 (Str ''version'') ?w) = Inr True"
      by (simp add: r3)
    show "instances (snd (handle_deleteProperty 0 (Str ''version'') ?w)) 0 = instances exampleA 0"
      by (simp add: r3 iw exampleA_instance)
  qed
  have r4: "fst (handle_deleteProperty 0 (Str ''counter'') ?s) = Inl TypeError"
    using t4 s by simp
  show ?thesis
    using exampleA_builtin o1 d1 o2 d3 s r1 r2 r3a r3b r4 by blast
qed

text \<open>
  The claim as stated fails: the real window of the example owns the read-only,
  non-configurable \<^verbatim>\<open>NaN\<close>, the snapshot copies it into the overlay, and deleting it
  through the handle raises \<^verbatim>\<open>TypeError\<close> (line 308) and leaves the key in the overlay.
\<close>

theorem delete_counterexample:
  "owns (fakeWindow (instances exampleA 0)) (Str ''NaN'') \<and>
   fst (handle_deleteProperty 0 (Str ''NaN'') exampleA) = Inl TypeError \<and>
   owns (fakeWindow (instances (snd (handle_deleteProperty 0 (Str ''NaN'') exampleA)) 0))
     (Str ''NaN'')"
  using exampleA_builtin(1)
  by (simp add: handle_deleteProperty_def proxy_deleteProperty_def callHasOwnProperty_builtin
      js_delete_def exampleA_instance owns_def)

subsection \<open>The teardown flag\<close>

text \<open>
  C2. What the code does on the sequence of the claim. Start with
  \<^verbatim>\<open>activeSandboxCount = 0\<close> and construct A and B. Both are running from their
  construction, so \<^verbatim>\<open>active(A); active(B)\<close> changes nothing and the counter stays 0.
  Then \<^verbatim>\<open>inactive(A)\<close> decrements it to -1 and hands \<^verbatim>\<open>false\<close> to the teardown hook,
  and \<^verbatim>\<open>inactive(B)\<close> decrements it to -2 and hands \<^verbatim>\<open>false\<close> again, where the
  claim expects \<^verbatim>\<open>true\<close>.
\<close>

theorem teardown_flags_of_two_fresh_instances:
  assumes "activeSandboxCount w = 0"
    and "construct a w = (A, w1)" and "construct b w1 = (B, w2)"
  shows "active B (active A w2) = w2 \<and>
         systemJsCalls (inactive A w2) =
           systemJsCalls w @ [ClearSystemJsProps (WindowProxy A) False] \<and>
         systemJsCalls (inactive B (inactive A w2)) =
           systemJsCalls w @ [ClearSystemJsProps (WindowProxy A) False,
                              ClearSystemJsProps (WindowProxy B) False] \<and>
         activeSandboxCount (inactive B (inactive A w2)) = - 2"
proof -
  note fa = construct_fresh [OF assms(2)] and fb = construct_fresh [OF assms(3)]
  have ne: "A \<noteq> B" using fa(1) fb(1) fa(9) by simp
  have ra: "sandboxRunning (instances w2 A)" using fb(3) [of A] ne by (simp add: fa(2))
  have rb: "sandboxRunning (instances w2 B)" by (simp add: fb(2))
  have ia: "(instances w2)(A := (instances w2 A)\<lparr>sandboxRunning := True\<rparr>) = instances w2"
    by (rule ext) (simp add: ra)
  have ib: "(instances w2)(B := (instances w2 B)\<lparr>sandboxRunning := True\<rparr>) = instances w2"
    by (rule ext) (simp add: rb)
  have act: "active A w2 = w2" "active B w2 = w2"
    by (simp_all add: active_def Let_def ra rb ia ib)
  have c: "activeSandboxCount w2 = 0" "systemJsCalls w2 = systemJsCalls w"
    using assms(1) fa(7,8) fb(7,8) by simp_all
  show ?thesis
    by (simp add: act inactive_def Let_def c)
qed

lemma exampleWorld_count: "activeSandboxCount exampleWorld = 0" "systemJsCalls exampleWorld = []"
  by (simp_all add: exampleWorld_def)

theorem teardown_flags_of_two_fresh_instances_witness:
  "activeSandboxCount exampleWorld = 0 \<and>
   construct ''A'' exampleWorld = (0, exampleA) \<and>
   construct ''B'' exampleA = (1, exampleAB) \<and>
   systemJsCalls (inactive 1 (inactive 0 (active 1 (active 0 exampleAB)))) =
     [ClearSystemJsProps (WindowProxy 0) False, ClearSystemJsProps (WindowProxy 1) False] \<and>
   activeSandboxCount (inactive 1 (inactive 0 (active 1 (active 0 exampleAB)))) = - 2"
  using teardown_flags_of_two_fresh_instances
    [OF exampleWorld_count(1) exampleA_construct exampleAB_construct]
    exampleWorld_count exampleA_construct exampleAB_construct
  by simp

subsection \<open>Deleting through the document proxy\<close>

text \<open>Reading \<^verbatim>\<open>document\<close> through the handle tags the document proxy with the handle
  and caches the element-creation function of that owner (lines 249 to 251, 154 to 158).\<close>

lemma exampleDoc_eval:
  "proxy_get 0 (Str ''document'') exampleA = (Inr (DocumentProxy 0), exampleDoc)"
  "fakeDocument (instances exampleDoc 0) =
     [(attachDocProxySymbol, Data (WindowProxy 0) True True True),
      (Str ''createElement'',
       Data (Bound (CreateElementOf (WindowProxy 0)) RawDocument) True True True)]"
  "host exampleDoc = exampleHost" "nodeEnv exampleDoc = ''production''"
proof -
  have d: "doc_set 0 attachDocProxySymbol (WindowProxy 0) exampleA =
      (Inr True, withFakeDocument 0
        [(attachDocProxySymbol, Data (WindowProxy 0) True True True),
         (Str ''createElement'',
          Data (Bound (CreateElementOf (WindowProxy 0)) RawDocument) True True True)] exampleA)"
    by (simp add: doc_set_def exampleA_instance exampleA_world exampleHost_def target_get_def
        js_get_def strictEq_def strictAssign_def js_assign_def getTargetValue_def
        getCreateElement_def attachDocProxySymbol_def)
  have g: "proxy_get 0 (Str ''document'') exampleA =
      (Inr (DocumentProxy 0), withFakeDocument 0
        [(attachDocProxySymbol, Data (WindowProxy 0) True True True),
         (Str ''createElement'',
          Data (Bound (CreateElementOf (WindowProxy 0)) RawDocument) True True True)] exampleA)"
    by (simp add: proxy_get_def isSelfReference_def d)
  then show "proxy_get 0 (Str ''document'') exampleA = (Inr (DocumentProxy 0), exampleDoc)"
    by (simp add: exampleDoc_def)
  show "fakeDocument (instances exampleDoc 0) =
     [(attachDocProxySymbol, Data (WindowProxy 0) True True True),
      (Str ''createElement'',
       Data (Bound (CreateElementOf (WindowProxy 0)) RawDocument) True True True)]"
    by (simp add: exampleDoc_def g withFakeDocument_def)
  show "host exampleDoc = exampleHost" "nodeEnv exampleDoc = ''production''"
    by (simp_all add: exampleDoc_def g withFakeDocument_def exampleA_world)
qed

text \<open>
  C5. What the code does when \<^verbatim>\<open>createElement\<close> is deleted through the document proxy.
  With \<^verbatim>\<open>p = 'createElement'\<close> the two statements \<^verbatim>\<open>delete target[p]\<close> and
  \<^verbatim>\<open>delete target.createElement\<close> (lines 197 and 199) delete the same key twice: whenever
  the trap reports success, the cached function is gone and the tag stored under
  \<^verbatim>\<open>attachDocProxySymbol\<close> is still there, where the claim expects both to be absent.
\<close>

theorem doc_delete_createElement_keeps_tag:
  assumes "map_of (fakeDocument (instances w i)) attachDocProxySymbol = Some d"
    and "doc_deleteProperty i (Str ''createElement'') w = (Inr True, w')"
  shows "map_of (fakeDocument (instances w' i)) attachDocProxySymbol = Some d \<and>
         \<not> owns (fakeDocument (instances w' i)) (Str ''createElement'')"
proof -
  let ?t = "fakeDocument (instances w i)"
  let ?c = "Str ''createElement''"
  have ne: "attachDocProxySymbol \<noteq> ?c" by (simp add: attachDocProxySymbol_def)
  show ?thesis
  proof (cases "js_delete ?t ?c")
    case None
    then show ?thesis using assms(2) by (simp add: doc_deleteProperty_def)
  next
    case (Some t1)
    then have dl: "deletable ?t ?c"
      by (auto simp: js_delete_def deletable_def split: option.splits if_splits)
    obtain t where t: "js_delete ?t ?c = Some t" "\<not> owns t ?c"
      "\<And>q. q \<noteq> ?c \<Longrightarrow> map_of t q = map_of ?t q" "\<not> owns ?t ?c \<Longrightarrow> t = ?t"
      by (rule js_delete_deletable [OF dl]) blast
    have t1: "t1 = t" using Some t(1) by simp
    have again: "js_delete t ?c = Some t"
      using t(2) by (simp add: js_delete_def not_owns_map_of)
    have "w' = withFakeDocument i t w"
      using assms(2) by (simp add: doc_deleteProperty_def t(1) again)
    then show ?thesis
      using t(2) t(3) [of attachDocProxySymbol] ne assms(1)
      by (simp add: withFakeDocument_def)
  qed
qed

theorem doc_delete_createElement_keeps_tag_witness:
  "map_of (fakeDocument (instances exampleDoc 0)) attachDocProxySymbol =
     Some (Data (WindowProxy 0) True True True) \<and>
   owns (fakeDocument (instances exampleDoc 0)) (Str ''createElement'') \<and>
   fst (doc_deleteProperty 0 (Str ''createElement'') exampleDoc) = Inr True \<and>
   map_of (fakeDocument (instances (snd (doc_deleteProperty 0 (Str ''createElement'') exampleDoc)) 0))
     attachDocProxySymbol = Some (Data (WindowProxy 0) True True True) \<and>
   \<not> owns (fakeDocument (instances (snd (doc_deleteProperty 0 (Str ''createElement'') exampleDoc)) 0))
     (Str ''createElement'')"
proof -
  have ne: "attachDocProxySymbol \<noteq> Str ''createElement''" by (simp add: attachDocProxySymbol_def)
  have m: "map_of (fakeDocument (instances exampleDoc 0)) attachDocProxySymbol =
     Some (Data (WindowProxy 0) True True True)"
    and o: "owns (fakeDocument (instances exampleDoc 0)) (Str ''createElement'')"
    by (simp_all add: exampleDoc_eval(2) owns_def)
  have r: "fst (doc_deleteProperty 0 (Str ''createElement'') exampleDoc) = Inr True"
    using ne by (simp add: doc_deleteProperty_def exampleDoc_eval(2) js_delete_def)
  have p: "doc_deleteProperty 0 (Str ''createElement'') exampleDoc =
      (Inr True, snd (doc_deleteProperty 0 (Str ''createElement'') exampleDoc))"
    using r by (metis prod.collapse)
  show ?thesis
    using doc_delete_createElement_keeps_tag [OF m p] m o r by simp
qed

text \<open>The sibling path does what the claim says: deleting the tag key removes both.\<close>

lemma doc_delete_tag_removes_both:
  "fst (doc_deleteProperty 0 attachDocProxySymbol exampleDoc) = Inr True \<and>
   fakeDocument (instances (snd (doc_deleteProperty 0 attachDocProxySymbol exampleDoc)) 0) = []"
proof -
  have ne: "attachDocProxySymbol \<noteq> Str ''createElement''" by (simp add: attachDocProxySymbol_def)
  show ?thesis
    using ne
    by (simp add: doc_deleteProperty_def exampleDoc_eval(2) js_delete_def withFakeDocument_def)
qed

text \<open>
  The comment at line 194 says the deletion is there so that \<^verbatim>\<open>createElement\<close> is
  assigned again when \<^verbatim>\<open>document\<close> is next read. With the tag left in place it is not:
  the next read of \<^verbatim>\<open>document\<close> finds the tag equal to the handle, skips the
  initialisation of line 154, and \<^verbatim>\<open>createElement\<close> stays \<^verbatim>\<open>undefined\<close>.
\<close>

lemma createElement_not_restored:
  "fst (proxy_get 0 (Str ''document'')
          (snd (doc_deleteProperty 0 (Str ''createElement'') exampleDoc))) = Inr (DocumentProxy 0) \<and>
   doc_get 0 (Str ''createElement'')
     (snd (proxy_get 0 (Str ''document'')
            (snd (doc_deleteProperty 0 (Str ''createElement'') exampleDoc)))) = Undefined"
proof -
  have ne: "attachDocProxySymbol \<noteq> Str ''createElement''" by (simp add: attachDocProxySymbol_def)
  have del: "doc_deleteProperty 0 (Str ''createElement'') exampleDoc =
      (Inr True, withFakeDocument 0 [(attachDocProxySymbol, Data (WindowProxy 0) True True True)]
         exampleDoc)"
    using ne by (simp add: doc_deleteProperty_def exampleDoc_eval(2) js_delete_def)
  let ?w = "withFakeDocument 0 [(attachDocProxySymbol, Data (WindowProxy 0) True True True)] exampleDoc"
  have f: "fakeDocument (instances ?w 0) = [(attachDocProxySymbol, Data (WindowProxy 0) True True True)]"
    "host ?w = exampleHost" "nodeEnv ?w = ''production''"
    by (simp_all add: withFakeDocument_def exampleDoc_eval)
  have s: "doc_set 0 attachDocProxySymbol (WindowProxy 0) ?w = (Inr True, ?w)"
    using ne
    by (simp add: doc_set_def f target_get_def js_get_def strictEq_def reflectSet_def
        js_assign_def withFakeDocument_def)
  have g: "proxy_get 0 (Str ''document'') ?w = (Inr (DocumentProxy 0), ?w)"
    by (simp add: proxy_get_def f isSelfReference_def s)
  show ?thesis
    using ne [symmetric]
    by (simp add: del g doc_get_def f target_get_def js_get_def exampleHost_def)
qed

end
